theory Spec2Isabelle
  imports Complex_Main
begin

section \<open>Data model\<close>

text \<open>
  The distributions of \<^verbatim>\<open>Arcsine.cxx\<close>, \<^verbatim>\<open>Frechet.cxx\<close> and
  \<^verbatim>\<open>GeneralizedPareto.cxx\<close> are embedded as functions on records.

  \<^item> \<^verbatim>\<open>NumericalScalar\<close> (a C++ \<^verbatim>\<open>double\<close>) is idealised as \<open>real\<close>: no rounding, no
    infinities, no NaN. Where the source relies on a NaN comparing false (the square root
    of a negative shape parameter in \<^verbatim>\<open>GeneralizedPareto::computeCDF\<close>), the guard is
    written out. A comparison \<^verbatim>\<open>!(x > 0.0)\<close> is kept in its negated form.
  \<^item> A member \<^verbatim>\<open>x_\<close> of the source is the field \<open>m_x\<close>: an Isabelle name cannot end
    in an underscore. A method \<^verbatim>\<open>C::f\<close> is the function \<open>C_f\<close>, the parameters constructor
    of \<^verbatim>\<open>C\<close> is \<open>C_new\<close>.
  \<^item> A method that can throw returns \<open>error + 'a\<close>; a method that can also change the
    object returns the outcome together with the object as the call leaves it, so that
    what an exception leaves behind is part of the model.
  \<^item> A \<^verbatim>\<open>Point\<close> is the list of its coordinates, \<^verbatim>\<open>getDimension\<close> its length.
\<close>

text \<open>The conditions of section 7 of the specification; the source throws
  \<^verbatim>\<open>InvalidArgumentException\<close> and \<^verbatim>\<open>NotDefinedException\<close>. \<open>UndefinedBehaviour\<close> is the
  outcome of an unchecked read beyond the end of a \<^verbatim>\<open>Point\<close>.\<close>

datatype error =
    InvalidArgument
  | NotDefined
  | NotYetImplemented
  | Convergence
  | Deserialization
  | UndefinedBehaviour

type_synonym Point = "real list"

record Interval =
  lowerBound :: Point
  upperBound :: Point
  finiteLowerBound :: "bool list"
  finiteUpperBound :: "bool list"

text \<open>Modelled from the spec: the class \<^verbatim>\<open>Interval\<close> is not part of the sources at hand.
  Section 3 of the specification describes a Range as a lower bound vector, an upper bound
  vector and per-side finiteness flags; the two-scalar constructor used by
  \<^verbatim>\<open>Arcsine::computeRange\<close> builds a one-dimensional interval with both bounds finite.\<close>

definition Interval_of_scalars :: "real \<Rightarrow> real \<Rightarrow> Interval" where
  "Interval_of_scalars l u =
     \<lparr>lowerBound = [l], upperBound = [u], finiteLowerBound = [True], finiteUpperBound = [True]\<rparr>"

text \<open>The parts of the library that the three distributions call and that are outside the
  sources at hand are parameters of the functions that use them, under the name the source
  gives them: the constants \<^verbatim>\<open>SpecFunc::LogMinNumericalScalar\<close> and
  \<^verbatim>\<open>SpecFunc::Precision\<close> and the function \<^verbatim>\<open>SpecFunc::Gamma\<close>.\<close>

text \<open>The state every distribution inherits from \<^verbatim>\<open>DistributionImplementation\<close>
  (section 3 of the specification): identity fields, the range, and the cached mean and
  covariance, each guarded by its flag.\<close>

record DistributionImplementation =
  m_name :: string
  m_dimension :: nat
  m_weight :: real
  m_range :: Interval
  m_mean :: Point
  m_covariance :: "real list list"
  m_isAlreadyComputedMean :: bool
  m_isAlreadyComputedCovariance :: bool

record Arcsine = DistributionImplementation +
  m_a :: real
  m_b :: real

record Frechet = DistributionImplementation +
  m_alpha :: real
  m_beta :: real
  m_gamma :: real

record GeneralizedPareto = DistributionImplementation +
  m_sigma :: real
  m_xi :: real

section \<open>The base class\<close>

text \<open>Modelled from the spec: the constructor \<^verbatim>\<open>ContinuousDistribution()\<close> is missing
  from the sources. By section 3 a fresh distribution has weight 1.0 and both cache flags
  unset (the state "uncomputed" of section 4.1); the name, the dimension and the range are
  overwritten by every constructor below.\<close>

definition ContinuousDistribution :: DistributionImplementation where
  "ContinuousDistribution =
     \<lparr>m_name = ''Unnamed'', m_dimension = 1, m_weight = 1,
      m_range = Interval_of_scalars 0 1, m_mean = [], m_covariance = [],
      m_isAlreadyComputedMean = False, m_isAlreadyComputedCovariance = False\<rparr>"

text \<open>Modelled from the spec: the accessors \<^verbatim>\<open>setName\<close>, \<^verbatim>\<open>setDimension\<close>,
  \<^verbatim>\<open>getWeight\<close>, \<^verbatim>\<open>setWeight\<close> and \<^verbatim>\<open>setRange\<close> of the base class are missing from
  the sources; each reads or writes the field of section 3 that it names.\<close>

definition setName ::
  "string \<Rightarrow> 'a DistributionImplementation_scheme \<Rightarrow> 'a DistributionImplementation_scheme" where
  "setName n d = d\<lparr>m_name := n\<rparr>"

definition setDimension ::
  "nat \<Rightarrow> 'a DistributionImplementation_scheme \<Rightarrow> 'a DistributionImplementation_scheme" where
  "setDimension n d = d\<lparr>m_dimension := n\<rparr>"

definition getWeight :: "'a DistributionImplementation_scheme \<Rightarrow> real" where
  "getWeight d = m_weight d"

definition setWeight ::
  "real \<Rightarrow> 'a DistributionImplementation_scheme \<Rightarrow> 'a DistributionImplementation_scheme" where
  "setWeight w d = d\<lparr>m_weight := w\<rparr>"

definition setRange ::
  "Interval \<Rightarrow> 'a DistributionImplementation_scheme \<Rightarrow> 'a DistributionImplementation_scheme" where
  "setRange r d = d\<lparr>m_range := r\<rparr>"

text \<open>Modelled from the spec: \<^verbatim>\<open>DistributionImplementation::getMean\<close> is missing from the
  sources. By sections 3 and 4.1 the mean is computed lazily: on first access the variant's
  \<^verbatim>\<open>computeMean\<close> fills the cache and sets the flag, afterwards the cached value is
  returned. An exception of \<^verbatim>\<open>computeMean\<close> propagates to the caller.\<close>

definition getMean ::
  "('a DistributionImplementation_scheme \<Rightarrow> (error + unit) \<times> 'a DistributionImplementation_scheme)
   \<Rightarrow> 'a DistributionImplementation_scheme
   \<Rightarrow> (error + Point) \<times> 'a DistributionImplementation_scheme" where
  "getMean computeMean d =
     (if m_isAlreadyComputedMean d then (Inr (m_mean d), d)
      else (case computeMean d of
              (Inl e, d') \<Rightarrow> (Inl e, d')
            | (Inr u, d') \<Rightarrow> (Inr (m_mean d'), d')))"

section \<open>The C library functions\<close>

text \<open>\<^verbatim>\<open>log1p\<close>, \<^verbatim>\<open>expm1\<close> and \<^verbatim>\<open>std::pow\<close> over the reals. They agree with the C
  functions where those are finite: \<open>ln\<close> for a positive argument, \<open>powr\<close> for a positive
  base. Outside these domains (the logarithm of 0, a power of 0 or of a negative number, a
  division by 0) the C functions give an infinity or a NaN and the functions of HOL some
  real number; no theorem below rests on such a value.\<close>

definition log1p :: "real \<Rightarrow> real" where
  "log1p x = ln (1 + x)"

definition expm1 :: "real \<Rightarrow> real" where
  "expm1 x = exp x - 1"

definition pow :: "real \<Rightarrow> real \<Rightarrow> real" where
  "pow x y = x powr y"

section \<open>Arcsine\<close>

definition Arcsine_computeRange :: "Arcsine \<Rightarrow> Arcsine" where
  "Arcsine_computeRange d = setRange (Interval_of_scalars (m_a d) (m_b d)) d"

definition Arcsine_fields :: "DistributionImplementation \<Rightarrow> real \<Rightarrow> real \<Rightarrow> Arcsine" where
  "Arcsine_fields base a b =
     \<lparr>m_name = m_name base, m_dimension = m_dimension base, m_weight = m_weight base,
      m_range = m_range base, m_mean = m_mean base, m_covariance = m_covariance base,
      m_isAlreadyComputedMean = m_isAlreadyComputedMean base,
      m_isAlreadyComputedCovariance = m_isAlreadyComputedCovariance base,
      m_a = a, m_b = b\<rparr>"

text \<open>The default constructor \<^verbatim>\<open>Arcsine()\<close>.\<close>

definition Arcsine_default :: Arcsine where
  "Arcsine_default =
     Arcsine_computeRange
       (setDimension 1 (setName ''Arcsine'' (Arcsine_fields ContinuousDistribution (- 1) 1)))"

text \<open>The parameters constructor \<^verbatim>\<open>Arcsine(a, b)\<close>.\<close>

definition Arcsine_new :: "real \<Rightarrow> real \<Rightarrow> error + Arcsine" where
  "Arcsine_new a b =
     (if \<not> (a < b) then Inl InvalidArgument
      else Inr (Arcsine_computeRange
                  (setDimension 1 (setName ''Arcsine'' (Arcsine_fields ContinuousDistribution a b)))))"

definition Arcsine_computeLogPDF :: "real \<Rightarrow> Arcsine \<Rightarrow> Point \<Rightarrow> error + real" where
  "Arcsine_computeLogPDF LogMinNumericalScalar d point =
     (if length point \<noteq> 1 then Inl InvalidArgument
      else (let x = point ! 0 in
            if (x \<le> m_a d) \<or> (x \<ge> m_b d) then Inr LogMinNumericalScalar
            else Inr (- ln pi - 0.5 * (ln (m_b d - x) + ln (x - m_a d)))))"

definition Arcsine_computePDF :: "real \<Rightarrow> Arcsine \<Rightarrow> Point \<Rightarrow> error + real" where
  "Arcsine_computePDF LogMinNumericalScalar d point =
     (if length point \<noteq> 1 then Inl InvalidArgument
      else (let x = point ! 0 in
            if (x \<le> m_a d) \<or> (x \<ge> m_b d) then Inr 0
            else (case Arcsine_computeLogPDF LogMinNumericalScalar d point of
                    Inl e \<Rightarrow> Inl e
                  | Inr l \<Rightarrow> Inr (exp l))))"

definition Arcsine_computeCDF :: "Arcsine \<Rightarrow> Point \<Rightarrow> error + real" where
  "Arcsine_computeCDF d point =
     (if length point \<noteq> 1 then Inl InvalidArgument
      else (let x = point ! 0 in
            if x \<le> m_a d then Inr 0
            else if x \<ge> m_b d then Inr 1
            else (let value = arcsin ((x - 0.5 * (m_a d + m_b d)) / (0.5 * (m_b d - m_a d))) / pi
                  in Inr (0.5 + value))))"

definition Arcsine_computeScalarQuantile :: "Arcsine \<Rightarrow> real \<Rightarrow> bool \<Rightarrow> real" where
  "Arcsine_computeScalarQuantile d prob tail =
     (let proba = (if tail then 1 - prob else prob) in
      0.5 * (m_b d - m_a d) * sin (pi * (proba - 0.5)) + 0.5 * (m_a d + m_b d))"

definition Arcsine_computeMean :: "Arcsine \<Rightarrow> (error + unit) \<times> Arcsine" where
  "Arcsine_computeMean d =
     (Inr (), d\<lparr>m_mean := [0.5 * (m_a d + m_b d)], m_isAlreadyComputedMean := True\<rparr>)"

definition Arcsine_getParameter :: "Arcsine \<Rightarrow> Point" where
  "Arcsine_getParameter d = [m_a d, m_b d]"

text \<open>\<^verbatim>\<open>*this = Arcsine(parameter[0], parameter[1])\<close> builds the temporary first: when its
  constructor throws, the assignment never runs.\<close>

definition Arcsine_setParameter :: "Point \<Rightarrow> Arcsine \<Rightarrow> (error + unit) \<times> Arcsine" where
  "Arcsine_setParameter parameter d =
     (if length parameter \<noteq> 2 then (Inl InvalidArgument, d)
      else (let w = getWeight d in
            case Arcsine_new (parameter ! 0) (parameter ! 1) of
              Inl e \<Rightarrow> (Inl e, d)
            | Inr t \<Rightarrow> (Inr (), setWeight w t)))"

text \<open>The public setters \<^verbatim>\<open>setA\<close> and \<^verbatim>\<open>setB\<close>. (The private \<^verbatim>\<open>setAB\<close> has no caller
  in the source and is left out.)\<close>

definition Arcsine_setA :: "real \<Rightarrow> Arcsine \<Rightarrow> (error + unit) \<times> Arcsine" where
  "Arcsine_setA a d =
     (if a \<ge> m_b d then (Inl InvalidArgument, d)
      else if a \<noteq> m_a d
        then (Inr (), Arcsine_computeRange
                (d\<lparr>m_a := a, m_isAlreadyComputedMean := False,
                   m_isAlreadyComputedCovariance := False\<rparr>))
      else (Inr (), d))"

definition Arcsine_setB :: "real \<Rightarrow> Arcsine \<Rightarrow> (error + unit) \<times> Arcsine" where
  "Arcsine_setB b d =
     (if m_a d \<ge> b then (Inl InvalidArgument, d)
      else if b \<noteq> m_b d
        then (Inr (), Arcsine_computeRange
                (d\<lparr>m_b := b, m_isAlreadyComputedMean := False,
                   m_isAlreadyComputedCovariance := False\<rparr>))
      else (Inr (), d))"

section \<open>Persistence\<close>

text \<open>Modelled from the spec: the \<^verbatim>\<open>Advocate\<close> and the base class's \<^verbatim>\<open>load\<close> are
  missing from the sources. By section 6 the advocate gives access to attributes keyed by
  their string name, a missing required attribute is a \<open>Deserialization\<close> failure, and the
  base contract declares the name, the dimension and the weight.\<close>

datatype attribute =
    ScalarAttribute real
  | UnsignedAttribute nat
  | StringAttribute string

type_synonym Advocate = "(string \<times> attribute) list"

definition loadScalar :: "Advocate \<Rightarrow> string \<Rightarrow> error + real" where
  "loadScalar adv key =
     (case map_of adv key of
        Some (ScalarAttribute v) \<Rightarrow> Inr v
      | _ \<Rightarrow> Inl Deserialization)"

definition loadUnsigned :: "Advocate \<Rightarrow> string \<Rightarrow> error + nat" where
  "loadUnsigned adv key =
     (case map_of adv key of
        Some (UnsignedAttribute n) \<Rightarrow> Inr n
      | _ \<Rightarrow> Inl Deserialization)"

definition loadString :: "Advocate \<Rightarrow> string \<Rightarrow> error + string" where
  "loadString adv key =
     (case map_of adv key of
        Some (StringAttribute t) \<Rightarrow> Inr t
      | _ \<Rightarrow> Inl Deserialization)"

definition ContinuousDistribution_load ::
  "Advocate \<Rightarrow> 'a DistributionImplementation_scheme
   \<Rightarrow> (error + unit) \<times> 'a DistributionImplementation_scheme" where
  "ContinuousDistribution_load adv d =
     (case loadString adv ''name_'' of
        Inl e \<Rightarrow> (Inl e, d)
      | Inr n \<Rightarrow>
     (case loadUnsigned adv ''dimension_'' of
        Inl e \<Rightarrow> (Inl e, d\<lparr>m_name := n\<rparr>)
      | Inr k \<Rightarrow>
     (case loadScalar adv ''weight_'' of
        Inl e \<Rightarrow> (Inl e, d\<lparr>m_name := n, m_dimension := k\<rparr>)
      | Inr w \<Rightarrow> (Inr (), d\<lparr>m_name := n, m_dimension := k, m_weight := w\<rparr>))))"

definition Arcsine_load :: "Advocate \<Rightarrow> Arcsine \<Rightarrow> (error + unit) \<times> Arcsine" where
  "Arcsine_load adv d =
     (case ContinuousDistribution_load adv d of
        (Inl e, d0) \<Rightarrow> (Inl e, d0)
      | (Inr u, d0) \<Rightarrow>
     (case loadScalar adv ''a_'' of
        Inl e \<Rightarrow> (Inl e, d0)
      | Inr a \<Rightarrow>
     (case loadScalar adv ''b_'' of
        Inl e \<Rightarrow> (Inl e, d0\<lparr>m_a := a\<rparr>)
      | Inr b \<Rightarrow> (Inr (), Arcsine_computeRange (d0\<lparr>m_a := a, m_b := b\<rparr>)))))"

section \<open>Frechet\<close>

definition Frechet_computeScalarQuantile :: "Frechet \<Rightarrow> real \<Rightarrow> bool \<Rightarrow> real" where
  "Frechet_computeScalarQuantile d prob tail =
     m_gamma d + m_beta d * pow (- ln (if tail then 1 - prob else prob)) (- 1 / m_alpha d)"

text \<open>Modelled from the spec: \<^verbatim>\<open>DistributionImplementation::computeUpperBound\<close> is missing
  from the sources. By section 4.3 a bound that is infinite is replaced by the quantile at
  a configured extreme probability; the level \<open>cdfEpsilon\<close> is a parameter. No theorem
  below depends on the value of this bound, which \<^verbatim>\<open>Frechet::computeRange\<close> flags as not
  finite.\<close>

definition Frechet_computeUpperBound :: "real \<Rightarrow> Frechet \<Rightarrow> Point" where
  "Frechet_computeUpperBound cdfEpsilon d = [Frechet_computeScalarQuantile d (1 - cdfEpsilon) False]"

definition Frechet_computeRange :: "real \<Rightarrow> Frechet \<Rightarrow> Frechet" where
  "Frechet_computeRange cdfEpsilon d =
     setRange \<lparr>lowerBound = [m_gamma d], upperBound = Frechet_computeUpperBound cdfEpsilon d,
               finiteLowerBound = [True], finiteUpperBound = [False]\<rparr> d"

definition Frechet_setAlpha :: "real \<Rightarrow> real \<Rightarrow> Frechet \<Rightarrow> (error + unit) \<times> Frechet" where
  "Frechet_setAlpha cdfEpsilon alpha d =
     (if \<not> (alpha > 0) then (Inl InvalidArgument, d)
      else if alpha \<noteq> m_alpha d
        then (Inr (), Frechet_computeRange cdfEpsilon
                (d\<lparr>m_alpha := alpha, m_isAlreadyComputedMean := False,
                   m_isAlreadyComputedCovariance := False\<rparr>))
      else (Inr (), d))"

definition Frechet_setBeta :: "real \<Rightarrow> real \<Rightarrow> Frechet \<Rightarrow> (error + unit) \<times> Frechet" where
  "Frechet_setBeta cdfEpsilon beta d =
     (if \<not> (beta > 0) then (Inl InvalidArgument, d)
      else if beta \<noteq> m_beta d
        then (Inr (), Frechet_computeRange cdfEpsilon
                (d\<lparr>m_beta := beta, m_isAlreadyComputedMean := False,
                   m_isAlreadyComputedCovariance := False\<rparr>))
      else (Inr (), d))"

text \<open>\<^verbatim>\<open>Frechet::setGamma\<close> has no check and cannot throw.\<close>

definition Frechet_setGamma :: "real \<Rightarrow> real \<Rightarrow> Frechet \<Rightarrow> Frechet" where
  "Frechet_setGamma cdfEpsilon gamma d =
     (if gamma \<noteq> m_gamma d
        then Frechet_computeRange cdfEpsilon
               (d\<lparr>m_gamma := gamma, m_isAlreadyComputedMean := False,
                  m_isAlreadyComputedCovariance := False\<rparr>)
      else d)"

definition Frechet_fields ::
  "DistributionImplementation \<Rightarrow> real \<Rightarrow> real \<Rightarrow> real \<Rightarrow> Frechet" where
  "Frechet_fields base alpha beta gamma =
     \<lparr>m_name = m_name base, m_dimension = m_dimension base, m_weight = m_weight base,
      m_range = m_range base, m_mean = m_mean base, m_covariance = m_covariance base,
      m_isAlreadyComputedMean = m_isAlreadyComputedMean base,
      m_isAlreadyComputedCovariance = m_isAlreadyComputedCovariance base,
      m_alpha = alpha, m_beta = beta, m_gamma = gamma\<rparr>"

text \<open>The parameters constructor \<^verbatim>\<open>Frechet(alpha, beta, gamma)\<close>: the members are
  initialised, then the three setters validate them, in this order.\<close>

definition Frechet_new :: "real \<Rightarrow> real \<Rightarrow> real \<Rightarrow> real \<Rightarrow> error + Frechet" where
  "Frechet_new cdfEpsilon alpha beta gamma =
     (case Frechet_setAlpha cdfEpsilon alpha (Frechet_fields ContinuousDistribution alpha beta gamma) of
        (Inl e, d1) \<Rightarrow> Inl e
      | (Inr u, d1) \<Rightarrow>
     (case Frechet_setBeta cdfEpsilon beta d1 of
        (Inl e, d2) \<Rightarrow> Inl e
      | (Inr u, d2) \<Rightarrow>
          Inr (Frechet_computeRange cdfEpsilon
                 (setDimension 1 (setName ''Frechet'' (Frechet_setGamma cdfEpsilon gamma d2))))))"

definition Frechet_computeCDF :: "Frechet \<Rightarrow> Point \<Rightarrow> error + real" where
  "Frechet_computeCDF d point =
     (if length point \<noteq> 1 then Inl InvalidArgument
      else (let x = point ! 0 - m_gamma d in
            if x \<le> 0 then Inr 0
            else Inr (exp (- pow (x / m_beta d) (- m_alpha d)))))"

definition Frechet_computeLogPDF :: "real \<Rightarrow> Frechet \<Rightarrow> Point \<Rightarrow> error + real" where
  "Frechet_computeLogPDF LogMinNumericalScalar d point =
     (if length point \<noteq> 1 then Inl InvalidArgument
      else (let x = point ! 0 - m_gamma d in
            if x \<le> 0 then Inr LogMinNumericalScalar
            else Inr (ln (m_alpha d / m_beta d) + (- 1 - m_alpha d) * ln (x / m_beta d)
                      - pow (x / m_beta d) (- m_alpha d))))"

text \<open>\<^verbatim>\<open>Frechet::computePDF\<close> reads \<^verbatim>\<open>point[0]\<close> first, with no check of the dimension.
  The class \<^verbatim>\<open>Point\<close> is outside the sources at hand; its \<^verbatim>\<open>operator[]\<close> is taken to be
  the unchecked read of the underlying \<^verbatim>\<open>std::vector\<close>, so that on a point of dimension 0
  the read is undefined behaviour, which the model records as an outcome of its own.\<close>

definition Frechet_computePDF :: "real \<Rightarrow> Frechet \<Rightarrow> Point \<Rightarrow> error + real" where
  "Frechet_computePDF LogMinNumericalScalar d point =
     (case point of
        [] \<Rightarrow> Inl UndefinedBehaviour
      | p0 # rest \<Rightarrow>
          (let x = p0 - m_gamma d in
           if x \<le> 0 then Inr 0
           else (case Frechet_computeLogPDF LogMinNumericalScalar d point of
                   Inl e \<Rightarrow> Inl e
                 | Inr l \<Rightarrow> Inr (exp l))))"

definition Frechet_computeMean :: "(real \<Rightarrow> real) \<Rightarrow> Frechet \<Rightarrow> (error + unit) \<times> Frechet" where
  "Frechet_computeMean Gamma d =
     (if \<not> (m_alpha d > 1) then (Inl InvalidArgument, d)
      else (Inr (), d\<lparr>m_mean := [m_gamma d + m_beta d * Gamma (1 - 1 / m_alpha d)],
                      m_isAlreadyComputedMean := True\<rparr>))"

definition Frechet_getParameter :: "Frechet \<Rightarrow> Point" where
  "Frechet_getParameter d = [m_alpha d, m_beta d, m_gamma d]"

definition Frechet_setParameter :: "real \<Rightarrow> Point \<Rightarrow> Frechet \<Rightarrow> (error + unit) \<times> Frechet" where
  "Frechet_setParameter cdfEpsilon parameter d =
     (if length parameter \<noteq> 3 then (Inl InvalidArgument, d)
      else (let w = getWeight d in
            case Frechet_new cdfEpsilon (parameter ! 0) (parameter ! 1) (parameter ! 2) of
              Inl e \<Rightarrow> (Inl e, d)
            | Inr t \<Rightarrow> (Inr (), setWeight w t)))"

definition Frechet_load :: "real \<Rightarrow> Advocate \<Rightarrow> Frechet \<Rightarrow> (error + unit) \<times> Frechet" where
  "Frechet_load cdfEpsilon adv d =
     (case ContinuousDistribution_load adv d of
        (Inl e, d0) \<Rightarrow> (Inl e, d0)
      | (Inr u, d0) \<Rightarrow>
     (case loadScalar adv ''alpha_'' of
        Inl e \<Rightarrow> (Inl e, d0)
      | Inr alpha \<Rightarrow>
     (case loadScalar adv ''beta_'' of
        Inl e \<Rightarrow> (Inl e, d0\<lparr>m_alpha := alpha\<rparr>)
      | Inr beta \<Rightarrow>
     (case loadScalar adv ''gamma_'' of
        Inl e \<Rightarrow> (Inl e, d0\<lparr>m_alpha := alpha, m_beta := beta\<rparr>)
      | Inr gamma \<Rightarrow>
          (Inr (), Frechet_computeRange cdfEpsilon
                     (setDimension 1 (d0\<lparr>m_alpha := alpha, m_beta := beta, m_gamma := gamma\<rparr>)))))))"

section \<open>GeneralizedPareto\<close>

definition GeneralizedPareto_computeScalarQuantile ::
  "GeneralizedPareto \<Rightarrow> real \<Rightarrow> bool \<Rightarrow> real" where
  "GeneralizedPareto_computeScalarQuantile d prob tail =
     (let logProb = (if tail then ln prob else log1p (- prob)) in
      if m_xi d = 0 then - m_sigma d * logProb
      else m_sigma d * expm1 (- m_xi d * logProb) / m_xi d)"

definition GeneralizedPareto_computeRange :: "real \<Rightarrow> GeneralizedPareto \<Rightarrow> GeneralizedPareto" where
  "GeneralizedPareto_computeRange Precision d =
     (if m_xi d \<ge> 0
        then setRange \<lparr>lowerBound = [0],
                        upperBound = [GeneralizedPareto_computeScalarQuantile d (1 - Precision) False],
                        finiteLowerBound = [True], finiteUpperBound = [False]\<rparr> d
      else setRange \<lparr>lowerBound = [0], upperBound = [- m_sigma d / m_xi d],
                      finiteLowerBound = [True], finiteUpperBound = [True]\<rparr> d)"

definition GeneralizedPareto_setSigma ::
  "real \<Rightarrow> real \<Rightarrow> GeneralizedPareto \<Rightarrow> (error + unit) \<times> GeneralizedPareto" where
  "GeneralizedPareto_setSigma Precision sigma d =
     (if \<not> (sigma > 0) then (Inl InvalidArgument, d)
      else if sigma \<noteq> m_sigma d
        then (Inr (), GeneralizedPareto_computeRange Precision
                (d\<lparr>m_sigma := sigma, m_isAlreadyComputedMean := False,
                   m_isAlreadyComputedCovariance := False\<rparr>))
      else (Inr (), d))"

text \<open>\<^verbatim>\<open>GeneralizedPareto::setXi\<close> has no check and cannot throw.\<close>

definition GeneralizedPareto_setXi :: "real \<Rightarrow> real \<Rightarrow> GeneralizedPareto \<Rightarrow> GeneralizedPareto" where
  "GeneralizedPareto_setXi Precision xi d =
     (if xi \<noteq> m_xi d
        then GeneralizedPareto_computeRange Precision
               (d\<lparr>m_xi := xi, m_isAlreadyComputedMean := False,
                  m_isAlreadyComputedCovariance := False\<rparr>)
      else d)"

definition GeneralizedPareto_fields ::
  "DistributionImplementation \<Rightarrow> real \<Rightarrow> real \<Rightarrow> GeneralizedPareto" where
  "GeneralizedPareto_fields base sigma xi =
     \<lparr>m_name = m_name base, m_dimension = m_dimension base, m_weight = m_weight base,
      m_range = m_range base, m_mean = m_mean base, m_covariance = m_covariance base,
      m_isAlreadyComputedMean = m_isAlreadyComputedMean base,
      m_isAlreadyComputedCovariance = m_isAlreadyComputedCovariance base,
      m_sigma = sigma, m_xi = xi\<rparr>"

text \<open>The default constructor \<^verbatim>\<open>GeneralizedPareto()\<close>.\<close>

definition GeneralizedPareto_default :: "real \<Rightarrow> GeneralizedPareto" where
  "GeneralizedPareto_default Precision =
     GeneralizedPareto_computeRange Precision
       (setDimension 1 (setName ''GeneralizedPareto''
          (GeneralizedPareto_fields ContinuousDistribution 1 0)))"

text \<open>The parameters constructor \<^verbatim>\<open>GeneralizedPareto(sigma, xi)\<close>: \<^verbatim>\<open>sigma_\<close> starts at 0
  and \<^verbatim>\<open>setSigma\<close> validates the argument and sets the range.\<close>

definition GeneralizedPareto_new :: "real \<Rightarrow> real \<Rightarrow> real \<Rightarrow> error + GeneralizedPareto" where
  "GeneralizedPareto_new Precision sigma xi =
     (case GeneralizedPareto_setSigma Precision sigma
             (setDimension 1 (setName ''GeneralizedPareto''
                (GeneralizedPareto_fields ContinuousDistribution 0 xi))) of
        (Inl e, d1) \<Rightarrow> Inl e
      | (Inr u, d1) \<Rightarrow> Inr d1)"

definition GeneralizedPareto_computePDF :: "GeneralizedPareto \<Rightarrow> Point \<Rightarrow> error + real" where
  "GeneralizedPareto_computePDF d point =
     (if length point \<noteq> 1 then Inl InvalidArgument
      else (let z = point ! 0 / m_sigma d in
            if z < 0 then Inr 0
            else if \<bar>z\<bar> * sqrt \<bar>m_xi d\<bar> < 1 / 10 ^ 8
              then Inr (exp (- z) * (1 + z * m_xi d * (0.5 * z - 1)) / m_sigma d)
            else if (m_xi d < 0) \<and> (z \<ge> - 1 / m_xi d) then Inr 0
            else Inr (exp (- (1 + 1 / m_xi d) * log1p (m_xi d * z)) / m_sigma d)))"

text \<open>In \<^verbatim>\<open>GeneralizedPareto::computeCDF\<close> the guard of the series branch is
  \<^verbatim>\<open>std::abs(std::sqrt(xi_) * z) < 1.0e-8\<close>, without the absolute value that
  \<^verbatim>\<open>computePDF\<close> takes of \<^verbatim>\<open>xi_\<close>. For a negative \<^verbatim>\<open>xi_\<close> the square root is a NaN and
  the comparison is false, so the branch is taken only for a non-negative \<^verbatim>\<open>xi_\<close>.

  The last line of the source, \<^verbatim>\<open>-expm1(-log1p(xi_ * z) / xi_)\<close>, is reached with
  \<^verbatim>\<open>xi_ * z\<close> equal to -1 when \<^verbatim>\<open>z\<close> is exactly the upper bound \<^verbatim>\<open>-1 / xi_\<close> of a negative
  \<^verbatim>\<open>xi_\<close>. There \<^verbatim>\<open>log1p(-1)\<close> is minus infinity, its negation divided by the negative
  \<^verbatim>\<open>xi_\<close> is minus infinity again, \<^verbatim>\<open>expm1\<close> of it is -1, and the result is 1. The reals
  have no infinity, so this point is a branch of its own in the model.\<close>

definition GeneralizedPareto_computeCDF :: "GeneralizedPareto \<Rightarrow> Point \<Rightarrow> error + real" where
  "GeneralizedPareto_computeCDF d point =
     (if length point \<noteq> 1 then Inl InvalidArgument
      else (let z = point ! 0 / m_sigma d in
            if z \<le> 0 then Inr 0
            else if (m_xi d \<ge> 0) \<and> (\<bar>sqrt (m_xi d) * z\<bar> < 1 / 10 ^ 8)
              then Inr (- expm1 (- z) - 0.5 * m_xi d * z * z * exp (- z))
            else if (m_xi d < 0) \<and> (z > - 1 / m_xi d) then Inr 1
            else if m_xi d * z = - 1 then Inr 1
            else Inr (- expm1 (- log1p (m_xi d * z) / m_xi d))))"

definition GeneralizedPareto_computeMean ::
  "GeneralizedPareto \<Rightarrow> (error + unit) \<times> GeneralizedPareto" where
  "GeneralizedPareto_computeMean d =
     (if \<not> (m_xi d < 1) then (Inl NotDefined, d)
      else (Inr (), d\<lparr>m_mean := [m_sigma d / (1 - m_xi d)], m_isAlreadyComputedMean := True\<rparr>))"

definition GeneralizedPareto_getParameter :: "GeneralizedPareto \<Rightarrow> Point" where
  "GeneralizedPareto_getParameter d = [m_sigma d, m_xi d]"

definition GeneralizedPareto_setParameter ::
  "real \<Rightarrow> Point \<Rightarrow> GeneralizedPareto \<Rightarrow> (error + unit) \<times> GeneralizedPareto" where
  "GeneralizedPareto_setParameter Precision parameter d =
     (if length parameter \<noteq> 2 then (Inl InvalidArgument, d)
      else (let w = getWeight d in
            case GeneralizedPareto_new Precision (parameter ! 0) (parameter ! 1) of
              Inl e \<Rightarrow> (Inl e, d)
            | Inr t \<Rightarrow> (Inr (), setWeight w t)))"

definition GeneralizedPareto_load ::
  "real \<Rightarrow> Advocate \<Rightarrow> GeneralizedPareto \<Rightarrow> (error + unit) \<times> GeneralizedPareto" where
  "GeneralizedPareto_load Precision adv d =
     (case ContinuousDistribution_load adv d of
        (Inl e, d0) \<Rightarrow> (Inl e, d0)
      | (Inr u, d0) \<Rightarrow>
     (case loadScalar adv ''sigma_'' of
        Inl e \<Rightarrow> (Inl e, d0)
      | Inr sigma \<Rightarrow>
     (case loadScalar adv ''xi_'' of
        Inl e \<Rightarrow> (Inl e, d0\<lparr>m_sigma := sigma\<rparr>)
      | Inr xi \<Rightarrow>
          (Inr (), GeneralizedPareto_computeRange Precision (d0\<lparr>m_sigma := sigma, m_xi := xi\<rparr>)))))"

section \<open>Example objects\<close>

text \<open>The objects at which the theorems below are instantiated: each distribution as its
  constructor builds it, and the same distribution after a first call of \<^verbatim>\<open>getMean\<close> has
  filled the cache. \<^verbatim>\<open>SpecFunc::Precision\<close> and the level of the numerical upper bound
  of Frechet are taken as 10^-12. The function that stands
  for \<^verbatim>\<open>SpecFunc::Gamma\<close> in \<open>Frechet_with_mean\<close> is the identity: the theorems hold for
  every function in that place, and the identity makes the dependence on the shape
  parameter visible.\<close>

definition Frechet_example :: Frechet where
  "Frechet_example = projr (Frechet_new (1 / 10 ^ 12) 2 1 0)"

definition GeneralizedPareto_example :: GeneralizedPareto where
  "GeneralizedPareto_example = projr (GeneralizedPareto_new (1 / 10 ^ 12) 1 1)"

definition Arcsine_with_mean :: Arcsine where
  "Arcsine_with_mean = snd (getMean Arcsine_computeMean Arcsine_default)"

definition Frechet_with_mean :: Frechet where
  "Frechet_with_mean = snd (getMean (Frechet_computeMean (\<lambda>x. x)) Frechet_example)"

definition GeneralizedPareto_with_mean :: GeneralizedPareto where
  "GeneralizedPareto_with_mean =
     snd (getMean GeneralizedPareto_computeMean (GeneralizedPareto_default (1 / 10 ^ 12)))"

definition Frechet_record :: "real \<Rightarrow> real \<Rightarrow> real \<Rightarrow> Advocate" where
  "Frechet_record alpha beta gamma =
     [(''name_'', StringAttribute ''Frechet''), (''dimension_'', UnsignedAttribute 1),
      (''weight_'', ScalarAttribute 1), (''alpha_'', ScalarAttribute alpha),
      (''beta_'', ScalarAttribute beta), (''gamma_'', ScalarAttribute gamma)]"

definition GeneralizedPareto_record :: "real \<Rightarrow> real \<Rightarrow> Advocate" where
  "GeneralizedPareto_record sigma xi =
     [(''name_'', StringAttribute ''GeneralizedPareto''), (''dimension_'', UnsignedAttribute 1),
      (''weight_'', ScalarAttribute 1), (''sigma_'', ScalarAttribute sigma),
      (''xi_'', ScalarAttribute xi)]"

definition Arcsine_record :: "real \<Rightarrow> real \<Rightarrow> Advocate" where
  "Arcsine_record a b =
     [(''name_'', StringAttribute ''Arcsine''), (''dimension_'', UnsignedAttribute 1),
      (''weight_'', ScalarAttribute 1), (''a_'', ScalarAttribute a),
      (''b_'', ScalarAttribute b)]"

section \<open>Theorems\<close>

subsection \<open>Unfolding rules\<close>

lemmas base_defs = setRange_def setDimension_def setName_def setWeight_def getWeight_def
  ContinuousDistribution_def Interval_of_scalars_def

lemmas Arcsine_ctor_defs = Arcsine_new_def Arcsine_default_def Arcsine_fields_def
  Arcsine_computeRange_def

lemmas Frechet_ctor_defs = Frechet_new_def Frechet_fields_def Frechet_setAlpha_def
  Frechet_setBeta_def Frechet_setGamma_def Frechet_computeRange_def Frechet_computeUpperBound_def

lemmas GeneralizedPareto_ctor_defs = GeneralizedPareto_new_def GeneralizedPareto_fields_def
  GeneralizedPareto_setSigma_def GeneralizedPareto_computeRange_def

subsection \<open>Real arithmetic\<close>

lemma sqrt_10_18: "sqrt (10 ^ 18) = 10 ^ 9"
  using real_sqrt_abs[of "10 ^ 9"] by simp

lemma sqrt_10_20: "sqrt (10 ^ 20) = 10 ^ 10"
  using real_sqrt_abs[of "10 ^ 10"] by simp




subsection \<open>Constructors and whole-tuple setters\<close>

lemma Arcsine_computeRange_fields [simp]:
  "m_a (Arcsine_computeRange d) = m_a d"
  "m_b (Arcsine_computeRange d) = m_b d"
  "m_isAlreadyComputedMean (Arcsine_computeRange d) = m_isAlreadyComputedMean d"
  "m_isAlreadyComputedCovariance (Arcsine_computeRange d) = m_isAlreadyComputedCovariance d"
  "m_weight (Arcsine_computeRange d) = m_weight d"
  "Arcsine_computeRange (Arcsine_computeRange d) = Arcsine_computeRange d"
  by (simp_all add: Arcsine_computeRange_def setRange_def)

lemma Frechet_computeRange_fields [simp]:
  "m_alpha (Frechet_computeRange P d) = m_alpha d"
  "m_beta (Frechet_computeRange P d) = m_beta d"
  "m_gamma (Frechet_computeRange P d) = m_gamma d"
  "m_isAlreadyComputedMean (Frechet_computeRange P d) = m_isAlreadyComputedMean d"
  "m_isAlreadyComputedCovariance (Frechet_computeRange P d) = m_isAlreadyComputedCovariance d"
  "m_weight (Frechet_computeRange P d) = m_weight d"
  "Frechet_computeRange P (Frechet_computeRange P d) = Frechet_computeRange P d"
  by (simp_all add: Frechet_computeRange_def Frechet_computeUpperBound_def
      Frechet_computeScalarQuantile_def setRange_def)

lemma GeneralizedPareto_computeRange_fields [simp]:
  "m_sigma (GeneralizedPareto_computeRange P d) = m_sigma d"
  "m_xi (GeneralizedPareto_computeRange P d) = m_xi d"
  "m_isAlreadyComputedMean (GeneralizedPareto_computeRange P d) = m_isAlreadyComputedMean d"
  "m_isAlreadyComputedCovariance (GeneralizedPareto_computeRange P d)
     = m_isAlreadyComputedCovariance d"
  "m_weight (GeneralizedPareto_computeRange P d) = m_weight d"
  "GeneralizedPareto_computeRange P (GeneralizedPareto_computeRange P d)
     = GeneralizedPareto_computeRange P d"
  by (simp_all add: GeneralizedPareto_computeRange_def
      GeneralizedPareto_computeScalarQuantile_def setRange_def Let_def)

lemma computeRange_setWeight:
  "Arcsine_computeRange (setWeight w a) = setWeight w (Arcsine_computeRange a)"
  "Frechet_computeRange P (setWeight w f) = setWeight w (Frechet_computeRange P f)"
  "GeneralizedPareto_computeRange P (setWeight w g)
     = setWeight w (GeneralizedPareto_computeRange P g)"
  by (simp_all add: Arcsine_computeRange_def Frechet_computeRange_def
      Frechet_computeUpperBound_def Frechet_computeScalarQuantile_def
      GeneralizedPareto_computeRange_def GeneralizedPareto_computeScalarQuantile_def
      setRange_def setWeight_def Let_def)

lemma setWeight_fields [simp]:
  "m_isAlreadyComputedMean (setWeight w d) = m_isAlreadyComputedMean d"
  "m_isAlreadyComputedCovariance (setWeight w d) = m_isAlreadyComputedCovariance d"
  "m_a (setWeight w a) = m_a a"
  "m_b (setWeight w a) = m_b a"
  "m_alpha (setWeight w f) = m_alpha f"
  "m_beta (setWeight w f) = m_beta f"
  "m_gamma (setWeight w f) = m_gamma f"
  "m_sigma (setWeight w g) = m_sigma g"
  "m_xi (setWeight w g) = m_xi g"
  by (simp_all add: setWeight_def)

lemma Arcsine_new_cases:
  "Arcsine_new x y =
     (if x < y
      then Inr (Arcsine_computeRange
                  (setDimension 1 (setName ''Arcsine'' (Arcsine_fields ContinuousDistribution x y))))
      else Inl InvalidArgument)"
  by (simp add: Arcsine_new_def)

lemma Frechet_new_Inl:
  "\<not> (0 < x \<and> 0 < y) \<Longrightarrow> Frechet_new P x y z = Inl InvalidArgument"
  by (auto simp add: Frechet_new_def Frechet_setAlpha_def Frechet_setBeta_def Frechet_fields_def)

lemma Frechet_new_Inr:
  "0 < x \<Longrightarrow> 0 < y \<Longrightarrow>
   Frechet_new P x y z =
     Inr (Frechet_computeRange P
            (setDimension 1 (setName ''Frechet'' (Frechet_fields ContinuousDistribution x y z))))"
  by (simp add: Frechet_new_def Frechet_setAlpha_def Frechet_setBeta_def Frechet_setGamma_def
      Frechet_fields_def)

lemma GeneralizedPareto_new_Inl:
  "\<not> 0 < x \<Longrightarrow> GeneralizedPareto_new P x y = Inl InvalidArgument"
  by (simp add: GeneralizedPareto_new_def GeneralizedPareto_setSigma_def)

lemma GeneralizedPareto_new_Inr:
  "0 < x \<Longrightarrow>
   GeneralizedPareto_new P x y =
     Inr (GeneralizedPareto_computeRange P
            (setDimension 1 (setName ''GeneralizedPareto''
               (GeneralizedPareto_fields ContinuousDistribution x y))))"
  by (simp add: GeneralizedPareto_new_def GeneralizedPareto_setSigma_def
      GeneralizedPareto_fields_def GeneralizedPareto_computeRange_def base_defs)

lemma Arcsine_setParameter_invalid:
  "\<not> (length p = 2 \<and> p ! 0 < p ! 1) \<Longrightarrow> Arcsine_setParameter p d = (Inl InvalidArgument, d)"
  by (auto simp add: Arcsine_setParameter_def Arcsine_new_cases)

lemma Frechet_setParameter_invalid:
  "\<not> (length p = 3 \<and> 0 < p ! 0 \<and> 0 < p ! 1) \<Longrightarrow>
   Frechet_setParameter P p d = (Inl InvalidArgument, d)"
  by (auto simp add: Frechet_setParameter_def Frechet_new_Inl)

lemma GeneralizedPareto_setParameter_invalid:
  "\<not> (length p = 2 \<and> 0 < p ! 0) \<Longrightarrow>
   GeneralizedPareto_setParameter P p d = (Inl InvalidArgument, d)"
  by (auto simp add: GeneralizedPareto_setParameter_def GeneralizedPareto_new_Inl)

lemma Arcsine_setParameter_valid:
  "length p = 2 \<Longrightarrow> p ! 0 < p ! 1 \<Longrightarrow>
   Arcsine_setParameter p d =
     (Inr (), setWeight (getWeight d)
                (Arcsine_computeRange
                   (setDimension 1 (setName ''Arcsine''
                      (Arcsine_fields ContinuousDistribution (p ! 0) (p ! 1))))))"
  by (simp add: Arcsine_setParameter_def Arcsine_new_cases)

lemma Frechet_setParameter_valid:
  "length p = 3 \<Longrightarrow> 0 < p ! 0 \<Longrightarrow> 0 < p ! 1 \<Longrightarrow>
   Frechet_setParameter P p d =
     (Inr (), setWeight (getWeight d)
                (Frechet_computeRange P
                   (setDimension 1 (setName ''Frechet''
                      (Frechet_fields ContinuousDistribution (p ! 0) (p ! 1) (p ! 2))))))"
  by (simp add: Frechet_setParameter_def Frechet_new_Inr)

lemma GeneralizedPareto_setParameter_valid:
  "length p = 2 \<Longrightarrow> 0 < p ! 0 \<Longrightarrow>
   GeneralizedPareto_setParameter P p d =
     (Inr (), setWeight (getWeight d)
                (GeneralizedPareto_computeRange P
                   (setDimension 1 (setName ''GeneralizedPareto''
                      (GeneralizedPareto_fields ContinuousDistribution (p ! 0) (p ! 1))))))"
  by (simp add: GeneralizedPareto_setParameter_def GeneralizedPareto_new_Inr)

lemma Arcsine_setParameter_success:
  "Arcsine_setParameter p d = (Inr (), d') \<Longrightarrow> length p = 2 \<and> p ! 0 < p ! 1"
  using Arcsine_setParameter_invalid[of p d] by auto

lemma Frechet_setParameter_success:
  "Frechet_setParameter P p d = (Inr (), d') \<Longrightarrow> length p = 3 \<and> 0 < p ! 0 \<and> 0 < p ! 1"
  using Frechet_setParameter_invalid[of p P d] by auto

lemma GeneralizedPareto_setParameter_success:
  "GeneralizedPareto_setParameter P p d = (Inr (), d') \<Longrightarrow> length p = 2 \<and> 0 < p ! 0"
  using GeneralizedPareto_setParameter_invalid[of p P d] by auto

subsection \<open>The example objects\<close>

lemma Arcsine_default_fields:
  "Arcsine_new (- 1) 1 = Inr Arcsine_default"
  "m_a Arcsine_default = - 1" "m_b Arcsine_default = 1"
  "m_weight Arcsine_default = 1"
  "\<not> m_isAlreadyComputedMean Arcsine_default"
  by (simp_all add: Arcsine_ctor_defs base_defs)

lemma Frechet_example_fields:
  "Frechet_new (1 / 10 ^ 12) 2 1 0 = Inr Frechet_example"
  "m_alpha Frechet_example = 2" "m_beta Frechet_example = 1" "m_gamma Frechet_example = 0"
  "m_weight Frechet_example = 1"
  "\<not> m_isAlreadyComputedMean Frechet_example"
  by (simp_all add: Frechet_example_def Frechet_ctor_defs base_defs)


lemma GeneralizedPareto_default_fields:
  "m_sigma (GeneralizedPareto_default P) = 1" "m_xi (GeneralizedPareto_default P) = 0"
  "m_weight (GeneralizedPareto_default P) = 1"
  "\<not> m_isAlreadyComputedMean (GeneralizedPareto_default P)"
  by (simp_all add: GeneralizedPareto_default_def GeneralizedPareto_ctor_defs base_defs)

lemma Arcsine_with_mean_fields:
  "m_a Arcsine_with_mean = - 1" "m_b Arcsine_with_mean = 1"
  "m_isAlreadyComputedMean Arcsine_with_mean" "m_mean Arcsine_with_mean = [0]"
  by (simp_all add: Arcsine_with_mean_def getMean_def Arcsine_computeMean_def
      Arcsine_default_fields)

lemma Frechet_with_mean_fields:
  "m_alpha Frechet_with_mean = 2" "m_beta Frechet_with_mean = 1" "m_gamma Frechet_with_mean = 0"
  "m_isAlreadyComputedMean Frechet_with_mean" "m_mean Frechet_with_mean = [1 / 2]"
  by (simp_all add: Frechet_with_mean_def getMean_def Frechet_computeMean_def
      Frechet_example_fields)

lemma GeneralizedPareto_with_mean_fields:
  "m_sigma GeneralizedPareto_with_mean = 1" "m_xi GeneralizedPareto_with_mean = 0"
  "m_isAlreadyComputedMean GeneralizedPareto_with_mean"
  "m_mean GeneralizedPareto_with_mean = [1]"
  by (simp_all add: GeneralizedPareto_with_mean_def getMean_def
      GeneralizedPareto_computeMean_def GeneralizedPareto_default_fields)

subsection \<open>The range of a distribution in terms of its parameters\<close>

lemma Arcsine_range_of:
  assumes "Arcsine_computeRange d = d"
  shows "m_range d = \<lparr>lowerBound = [m_a d], upperBound = [m_b d],
                    finiteLowerBound = [True], finiteUpperBound = [True]\<rparr>"
proof -
  have "m_range d = m_range (Arcsine_computeRange d)" using assms by simp
  then show ?thesis
    by (simp add: Arcsine_computeRange_def setRange_def Interval_of_scalars_def)
qed

lemma Frechet_range_of:
  assumes "Frechet_computeRange cdfEpsilon d = d"
  shows "m_range d = \<lparr>lowerBound = [m_gamma d],
                    upperBound = [m_gamma d + m_beta d * pow (- ln (1 - cdfEpsilon)) (- 1 / m_alpha d)],
                    finiteLowerBound = [True], finiteUpperBound = [False]\<rparr>"
proof -
  have "m_range d = m_range (Frechet_computeRange cdfEpsilon d)" using assms by simp
  then show ?thesis
    by (simp add: Frechet_computeRange_def Frechet_computeUpperBound_def
        Frechet_computeScalarQuantile_def setRange_def)
qed

lemma GeneralizedPareto_range_of:
  assumes "GeneralizedPareto_computeRange Precision d = d"
  shows "m_range d =
           (if 0 \<le> m_xi d
            then \<lparr>lowerBound = [0],
                  upperBound =
                    [if m_xi d = 0 then - m_sigma d * log1p (- (1 - Precision))
                     else m_sigma d * expm1 (- m_xi d * log1p (- (1 - Precision))) / m_xi d],
                  finiteLowerBound = [True], finiteUpperBound = [False]\<rparr>
            else \<lparr>lowerBound = [0], upperBound = [- m_sigma d / m_xi d],
                  finiteLowerBound = [True], finiteUpperBound = [True]\<rparr>)"
proof -
  have "m_range d = m_range (GeneralizedPareto_computeRange Precision d)" using assms by simp
  then show ?thesis
    by (simp add: GeneralizedPareto_computeRange_def GeneralizedPareto_computeScalarQuantile_def
        setRange_def Let_def)
qed

subsection \<open>C1: the mean of a heavy-tailed Frechet distribution\<close>

text \<open>C1: the claim asks that \<^verbatim>\<open>mean()\<close> of a Frechet distribution with alpha = 0.5 fail
  with \<open>NotDefined\<close>. The code fails with \<open>InvalidArgument\<close>: \<^verbatim>\<open>Frechet::computeMean\<close>
  throws \<^verbatim>\<open>InvalidArgumentException\<close> with the message "mean is not defined for alpha <= 1".
  The object is left as it was: no mean is stored and the flag stays unset. The sibling
  \<^verbatim>\<open>GeneralizedPareto::computeMean\<close> throws \<^verbatim>\<open>NotDefinedException\<close> in the same
  situation (xi = 1).\<close>

theorem C1_frechet_mean_invalid_argument:
  "\<exists>d g. Frechet_new cdfEpsilon (1 / 2) 1 0 = Inr d
     \<and> m_alpha d = 1 / 2 \<and> \<not> m_isAlreadyComputedMean d
     \<and> getMean (Frechet_computeMean Gamma) d = (Inl InvalidArgument, d)
     \<and> GeneralizedPareto_new Precision 1 1 = Inr g
     \<and> getMean GeneralizedPareto_computeMean g = (Inl NotDefined, g)"
  by (simp add: Frechet_ctor_defs GeneralizedPareto_ctor_defs base_defs getMean_def
      Frechet_computeMean_def GeneralizedPareto_computeMean_def)

subsection \<open>C2: the density of a point of the wrong dimension\<close>

text \<open>The density and log-density functions that check the dimension first.\<close>

lemma density_dimension_checked:
  assumes "length point \<noteq> 1"
  shows "Arcsine_computePDF L a point = Inl InvalidArgument"
    and "GeneralizedPareto_computePDF g point = Inl InvalidArgument"
    and "Frechet_computeLogPDF L f point = Inl InvalidArgument"
  using assms
  by (simp_all add: Arcsine_computePDF_def GeneralizedPareto_computePDF_def
      Frechet_computeLogPDF_def)

text \<open>C2: the claim asks that the density of a point whose dimension is not 1 fail with
  \<open>InvalidArgument\<close> before any coordinate is used. \<^verbatim>\<open>Frechet::computePDF\<close> has no check of
  its own: for the Frechet distribution with alpha = 1, beta = 1, gamma = 0 the point
  [-1, 5] of dimension 2 gets the density 0, and the empty point is read out of bounds.
  \<^verbatim>\<open>Frechet::computeLogPDF\<close> and \<^verbatim>\<open>Frechet::computeCDF\<close> reject the same point.\<close>

theorem C2_frechet_density_wrong_dimension:
  "\<exists>d. Frechet_new cdfEpsilon 1 1 0 = Inr d
     \<and> Frechet_computePDF LogMinNumericalScalar d [- 1, 5] = Inr 0
     \<and> Frechet_computePDF LogMinNumericalScalar d [] = Inl UndefinedBehaviour
     \<and> Frechet_computeLogPDF LogMinNumericalScalar d [- 1, 5] = Inl InvalidArgument
     \<and> Frechet_computeCDF d [- 1, 5] = Inl InvalidArgument"
  by (simp add: Frechet_ctor_defs base_defs Frechet_computePDF_def Frechet_computeLogPDF_def
      Frechet_computeCDF_def)

subsection \<open>C3: density and cumulative probability outside the range\<close>

text \<open>Outside the range the density is 0 and the cumulative probability is 0 or 1 for
  Arcsine, for Frechet (whose upper bound is not finite), and for GeneralizedPareto below
  its lower bound; at or above its finite upper bound the cumulative probability is 1, and
  above it the density is 0 when the series branch of \<^verbatim>\<open>computePDF\<close> is not taken.\<close>

lemma Arcsine_outside_range:
  shows "x \<le> m_a d \<or> m_b d \<le> x \<Longrightarrow> Arcsine_computePDF L d [x] = Inr 0"
    and "x \<le> m_a d \<Longrightarrow> Arcsine_computeCDF d [x] = Inr 0"
    and "m_a d < m_b d \<Longrightarrow> m_b d \<le> x \<Longrightarrow> Arcsine_computeCDF d [x] = Inr 1"
  by (auto simp add: Arcsine_computePDF_def Arcsine_computeCDF_def)

lemma Frechet_outside_range:
  shows "x \<le> m_gamma d \<Longrightarrow> Frechet_computePDF L d [x] = Inr 0"
    and "x \<le> m_gamma d \<Longrightarrow> Frechet_computeCDF d [x] = Inr 0"
  by (simp_all add: Frechet_computePDF_def Frechet_computeCDF_def)

lemma GeneralizedPareto_outside_range:
  assumes s: "0 < m_sigma d"
  shows "x < 0 \<Longrightarrow> GeneralizedPareto_computePDF d [x] = Inr 0"
    and "x \<le> 0 \<Longrightarrow> GeneralizedPareto_computeCDF d [x] = Inr 0"
    and "m_xi d < 0 \<Longrightarrow> - m_sigma d / m_xi d \<le> x \<Longrightarrow> GeneralizedPareto_computeCDF d [x] = Inr 1"
    and "m_xi d < 0 \<Longrightarrow> - m_sigma d / m_xi d < x \<Longrightarrow>
         \<not> \<bar>x / m_sigma d\<bar> * sqrt \<bar>m_xi d\<bar> < 1 / 10 ^ 8 \<Longrightarrow>
         GeneralizedPareto_computePDF d [x] = Inr 0"
proof -
  show "x < 0 \<Longrightarrow> GeneralizedPareto_computePDF d [x] = Inr 0"
    using s by (simp add: GeneralizedPareto_computePDF_def Let_def divide_neg_pos)
  show "x \<le> 0 \<Longrightarrow> GeneralizedPareto_computeCDF d [x] = Inr 0"
    using s by (simp add: GeneralizedPareto_computeCDF_def Let_def divide_le_0_iff)
  have up: "- 1 / m_xi d < x / m_sigma d" if "m_xi d < 0" "- m_sigma d / m_xi d < x"
  proof -
    have "(- m_sigma d / m_xi d) / m_sigma d < x / m_sigma d"
      using that(2) s by (rule divide_strict_right_mono)
    then show ?thesis using s by simp
  qed
  show "m_xi d < 0 \<Longrightarrow> - m_sigma d / m_xi d \<le> x \<Longrightarrow> GeneralizedPareto_computeCDF d [x] = Inr 1"
  proof -
    assume h: "m_xi d < 0" "- m_sigma d / m_xi d \<le> x"
    have p: "0 < - 1 / m_xi d" using h(1) by (simp add: divide_neg_neg)
    show ?thesis
    proof (cases "- m_sigma d / m_xi d < x")
      case True
      have "0 < x / m_sigma d" using up[OF h(1) True] p by linarith
      then show ?thesis
        using h(1) up[OF h(1) True]
        by (simp add: GeneralizedPareto_computeCDF_def Let_def not_le)
    next
      case False
      then have x: "x = - m_sigma d / m_xi d" using h(2) by simp
      have z: "x / m_sigma d = - 1 / m_xi d" using s by (simp add: x)
      have m: "m_xi d * (x / m_sigma d) = - 1" using h(1) by (simp add: z)
      have "0 < x / m_sigma d" using p z by simp
      then show ?thesis
        using h(1) m by (simp add: GeneralizedPareto_computeCDF_def Let_def not_le)
    qed
  qed
  show "m_xi d < 0 \<Longrightarrow> - m_sigma d / m_xi d < x \<Longrightarrow>
         \<not> \<bar>x / m_sigma d\<bar> * sqrt \<bar>m_xi d\<bar> < 1 / 10 ^ 8 \<Longrightarrow>
         GeneralizedPareto_computePDF d [x] = Inr 0"
  proof -
    assume h: "m_xi d < 0" "- m_sigma d / m_xi d < x"
      and n: "\<not> \<bar>x / m_sigma d\<bar> * sqrt \<bar>m_xi d\<bar> < 1 / 10 ^ 8"
    have "0 < - 1 / m_xi d" using h(1) by (simp add: divide_neg_neg)
    then have "0 < x / m_sigma d" using up[OF h] by linarith
    then show ?thesis
      using h(1) up[OF h] n by (simp add: GeneralizedPareto_computePDF_def Let_def not_le not_less)
  qed
qed

text \<open>C3: the claim asks that the density be exactly 0 outside the range. For the
  GeneralizedPareto distribution with sigma = 1 and xi = -10^18 the range is [0, 10^-18]
  with a finite upper bound; at the point [2 * 10^-18], beyond that bound,
  \<^verbatim>\<open>computePDF\<close> takes the series branch, which it tests before the support, and returns
  a value above 2. \<^verbatim>\<open>computeCDF\<close> returns 1 at the same point.\<close>

theorem C3_generalized_pareto_density_outside_range:
  "\<exists>d. GeneralizedPareto_new Precision 1 (- (10 ^ 18)) = Inr d
     \<and> upperBound (m_range d) = [1 / 10 ^ 18]
     \<and> finiteUpperBound (m_range d) = [True]
     \<and> GeneralizedPareto_computePDF d [2 / 10 ^ 18]
         = Inr (exp (- (2 / 10 ^ 18)) * (1 + 2 / 10 ^ 18 * (- (10 ^ 18)) * (0.5 * (2 / 10 ^ 18) - 1)))
     \<and> 2 < exp (- (2 / 10 ^ 18)) * (1 + 2 / 10 ^ 18 * (- (10 ^ 18)) * (0.5 * (2 / 10 ^ 18) - 1 :: real))
     \<and> GeneralizedPareto_computeCDF d [2 / 10 ^ 18] = Inr 1"
proof -
  have e: "exp (- (2 / 10 ^ 18) :: real) \<ge> 1 - 2 / 10 ^ 18"
    using exp_ge_add_one_self[of "- (2 / 10 ^ 18) :: real"] by simp
  have v: "1 + 2 / 10 ^ 18 * (- (10 ^ 18)) * (0.5 * (2 / 10 ^ 18) - 1 :: real) = 3 - 2 / 10 ^ 18"
    by simp
  have "(1 - 2 / 10 ^ 18) * (3 - 2 / 10 ^ 18) \<le> exp (- (2 / 10 ^ 18) :: real) * (3 - 2 / 10 ^ 18)"
    using e by (intro mult_right_mono) simp_all
  moreover have "(2::real) < (1 - 2 / 10 ^ 18) * (3 - 2 / 10 ^ 18)" by simp
  ultimately have big: "2 < exp (- (2 / 10 ^ 18) :: real) * (3 - 2 / 10 ^ 18)" by linarith
  have pdf: "\<bar>2 / 10 ^ 18 :: real\<bar> * sqrt \<bar>- (10 ^ 18)\<bar> < 1 / 10 ^ 8"
    by (simp add: sqrt_10_18)
  show ?thesis
    unfolding v
    using big pdf
    by (simp add: GeneralizedPareto_ctor_defs base_defs GeneralizedPareto_computePDF_def
      GeneralizedPareto_computeCDF_def del: real_sqrt_abs2)
qed

subsection \<open>C4: the cumulative probability of a quantile\<close>














subsection \<open>C5: setters invalidate the caches\<close>

lemma Arcsine_getMean_uncached:
  "\<not> m_isAlreadyComputedMean d \<Longrightarrow>
   fst (getMean Arcsine_computeMean d) = Inr [0.5 * (m_a d + m_b d)]"
  by (simp add: getMean_def Arcsine_computeMean_def)

lemma Frechet_getMean_uncached:
  "\<not> m_isAlreadyComputedMean d \<Longrightarrow>
   fst (getMean (Frechet_computeMean G) d) =
     (if 1 < m_alpha d then Inr [m_gamma d + m_beta d * G (1 - 1 / m_alpha d)]
      else Inl InvalidArgument)"
  by (simp add: getMean_def Frechet_computeMean_def)

lemma GeneralizedPareto_getMean_uncached:
  "\<not> m_isAlreadyComputedMean d \<Longrightarrow>
   fst (getMean GeneralizedPareto_computeMean d) =
     (if m_xi d < 1 then Inr [m_sigma d / (1 - m_xi d)] else Inl NotDefined)"
  by (simp add: getMean_def GeneralizedPareto_computeMean_def)

lemma Arcsine_setA_changed:
  assumes "Arcsine_setA v d = (Inr (), d')" and "v \<noteq> m_a d"
  shows "m_a d' = v" and "m_b d' = m_b d"
    and "\<not> m_isAlreadyComputedMean d'" and "\<not> m_isAlreadyComputedCovariance d'"
    and "Arcsine_computeRange d' = d'"
  using assms by (auto simp add: Arcsine_setA_def split: if_splits)

lemma Arcsine_setB_changed:
  assumes "Arcsine_setB v d = (Inr (), d')" and "v \<noteq> m_b d"
  shows "m_a d' = m_a d" and "m_b d' = v"
    and "\<not> m_isAlreadyComputedMean d'" and "\<not> m_isAlreadyComputedCovariance d'"
    and "Arcsine_computeRange d' = d'"
  using assms by (auto simp add: Arcsine_setB_def split: if_splits)

lemma Arcsine_setParameter_changed:
  assumes "Arcsine_setParameter p d = (Inr (), d')"
  shows "m_a d' = p ! 0" and "m_b d' = p ! 1"
    and "\<not> m_isAlreadyComputedMean d'" and "\<not> m_isAlreadyComputedCovariance d'"
    and "Arcsine_computeRange d' = d'"
  using assms Arcsine_setParameter_success[OF assms]
  by (auto simp add: Arcsine_setParameter_valid computeRange_setWeight Arcsine_fields_def
      setDimension_def setName_def ContinuousDistribution_def)

lemma Frechet_setAlpha_changed:
  assumes "Frechet_setAlpha P v d = (Inr (), d')" and "v \<noteq> m_alpha d"
  shows "m_alpha d' = v" and "m_beta d' = m_beta d" and "m_gamma d' = m_gamma d"
    and "\<not> m_isAlreadyComputedMean d'" and "\<not> m_isAlreadyComputedCovariance d'"
    and "Frechet_computeRange P d' = d'"
  using assms by (auto simp add: Frechet_setAlpha_def split: if_splits)

lemma Frechet_setBeta_changed:
  assumes "Frechet_setBeta P v d = (Inr (), d')" and "v \<noteq> m_beta d"
  shows "m_alpha d' = m_alpha d" and "m_beta d' = v" and "m_gamma d' = m_gamma d"
    and "\<not> m_isAlreadyComputedMean d'" and "\<not> m_isAlreadyComputedCovariance d'"
    and "Frechet_computeRange P d' = d'"
  using assms by (auto simp add: Frechet_setBeta_def split: if_splits)

lemma Frechet_setGamma_changed:
  assumes "Frechet_setGamma P v d = d'" and "v \<noteq> m_gamma d"
  shows "m_alpha d' = m_alpha d" and "m_beta d' = m_beta d" and "m_gamma d' = v"
    and "\<not> m_isAlreadyComputedMean d'" and "\<not> m_isAlreadyComputedCovariance d'"
    and "Frechet_computeRange P d' = d'"
  using assms by (auto simp add: Frechet_setGamma_def split: if_splits)

lemma Frechet_setParameter_changed:
  assumes "Frechet_setParameter P p d = (Inr (), d')"
  shows "m_alpha d' = p ! 0" and "m_beta d' = p ! 1" and "m_gamma d' = p ! 2"
    and "\<not> m_isAlreadyComputedMean d'" and "\<not> m_isAlreadyComputedCovariance d'"
    and "Frechet_computeRange P d' = d'"
  using assms Frechet_setParameter_success[OF assms]
  by (auto simp add: Frechet_setParameter_valid computeRange_setWeight Frechet_fields_def
      setDimension_def setName_def ContinuousDistribution_def)

lemma GeneralizedPareto_setSigma_changed:
  assumes "GeneralizedPareto_setSigma P v d = (Inr (), d')" and "v \<noteq> m_sigma d"
  shows "m_sigma d' = v" and "m_xi d' = m_xi d"
    and "\<not> m_isAlreadyComputedMean d'" and "\<not> m_isAlreadyComputedCovariance d'"
    and "GeneralizedPareto_computeRange P d' = d'"
  using assms by (auto simp add: GeneralizedPareto_setSigma_def split: if_splits)

lemma GeneralizedPareto_setXi_changed:
  assumes "GeneralizedPareto_setXi P v d = d'" and "v \<noteq> m_xi d"
  shows "m_sigma d' = m_sigma d" and "m_xi d' = v"
    and "\<not> m_isAlreadyComputedMean d'" and "\<not> m_isAlreadyComputedCovariance d'"
    and "GeneralizedPareto_computeRange P d' = d'"
  using assms by (auto simp add: GeneralizedPareto_setXi_def split: if_splits)

lemma GeneralizedPareto_setParameter_changed:
  assumes "GeneralizedPareto_setParameter P p d = (Inr (), d')"
  shows "m_sigma d' = p ! 0" and "m_xi d' = p ! 1"
    and "\<not> m_isAlreadyComputedMean d'" and "\<not> m_isAlreadyComputedCovariance d'"
    and "GeneralizedPareto_computeRange P d' = d'"
  using assms GeneralizedPareto_setParameter_success[OF assms]
  by (auto simp add: GeneralizedPareto_setParameter_valid computeRange_setWeight
      GeneralizedPareto_fields_def setDimension_def setName_def ContinuousDistribution_def)

lemma Arcsine_setA_invalidates:
  assumes "fst (Arcsine_setA va a) = Inr ()" and "va \<noteq> m_a a"
  shows "(let d' = snd (Arcsine_setA va a) in
          \<not> m_isAlreadyComputedMean d' \<and> \<not> m_isAlreadyComputedCovariance d'
          \<and> m_range d' = \<lparr>lowerBound = [va], upperBound = [m_b a],
                          finiteLowerBound = [True], finiteUpperBound = [True]\<rparr>
          \<and> Arcsine_computeRange d' = d'
          \<and> fst (getMean Arcsine_computeMean d') = Inr [0.5 * (va + m_b a)])"
proof -
  from assms have e: "Arcsine_setA va a = (Inr (), snd (Arcsine_setA va a))"
    by (simp add: prod_eq_iff)
  note c = Arcsine_setA_changed[OF e assms(2)]
  note r = Arcsine_range_of[OF c(5), unfolded c(1,2)]
  have m: "fst (getMean Arcsine_computeMean (snd (Arcsine_setA va a))) = Inr [0.5 * (va + m_b a)]"
    using c assms by (simp add: Arcsine_getMean_uncached)
  show ?thesis
    unfolding Let_def by (intro conjI) (fact c r m)+
qed

lemma Arcsine_setB_invalidates:
  assumes "fst (Arcsine_setB vb a) = Inr ()" and "vb \<noteq> m_b a"
  shows "(let d' = snd (Arcsine_setB vb a) in
          \<not> m_isAlreadyComputedMean d' \<and> \<not> m_isAlreadyComputedCovariance d'
          \<and> m_range d' = \<lparr>lowerBound = [m_a a], upperBound = [vb],
                          finiteLowerBound = [True], finiteUpperBound = [True]\<rparr>
          \<and> Arcsine_computeRange d' = d'
          \<and> fst (getMean Arcsine_computeMean d') = Inr [0.5 * (m_a a + vb)])"
proof -
  from assms have e: "Arcsine_setB vb a = (Inr (), snd (Arcsine_setB vb a))"
    by (simp add: prod_eq_iff)
  note c = Arcsine_setB_changed[OF e assms(2)]
  note r = Arcsine_range_of[OF c(5), unfolded c(1,2)]
  have m: "fst (getMean Arcsine_computeMean (snd (Arcsine_setB vb a))) = Inr [0.5 * (m_a a + vb)]"
    using c assms by (simp add: Arcsine_getMean_uncached)
  show ?thesis
    unfolding Let_def by (intro conjI) (fact c r m)+
qed

lemma Arcsine_setParameter_invalidates:
  assumes "fst (Arcsine_setParameter pa a) = Inr ()"
  shows "(let d' = snd (Arcsine_setParameter pa a) in
          \<not> m_isAlreadyComputedMean d' \<and> \<not> m_isAlreadyComputedCovariance d'
          \<and> m_range d' = \<lparr>lowerBound = [pa ! 0], upperBound = [pa ! 1],
                          finiteLowerBound = [True], finiteUpperBound = [True]\<rparr>
          \<and> Arcsine_computeRange d' = d'
          \<and> fst (getMean Arcsine_computeMean d') = Inr [0.5 * (pa ! 0 + pa ! 1)])"
proof -
  from assms have e: "Arcsine_setParameter pa a = (Inr (), snd (Arcsine_setParameter pa a))"
    by (simp add: prod_eq_iff)
  note c = Arcsine_setParameter_changed[OF e]
  note r = Arcsine_range_of[OF c(5), unfolded c(1,2)]
  have m: "fst (getMean Arcsine_computeMean (snd (Arcsine_setParameter pa a))) = Inr [0.5 * (pa ! 0 + pa ! 1)]"
    using c assms by (simp add: Arcsine_getMean_uncached)
  show ?thesis
    unfolding Let_def by (intro conjI) (fact c r m)+
qed

lemma Frechet_setAlpha_invalidates:
  assumes "fst (Frechet_setAlpha cdfEpsilon valpha f) = Inr ()" and "valpha \<noteq> m_alpha f"
  shows "(let d' = snd (Frechet_setAlpha cdfEpsilon valpha f) in
          \<not> m_isAlreadyComputedMean d' \<and> \<not> m_isAlreadyComputedCovariance d'
          \<and> m_range d' = \<lparr>lowerBound = [m_gamma f],
                          upperBound = [m_gamma f + m_beta f * pow (- ln (1 - cdfEpsilon)) (- 1 / valpha)],
                          finiteLowerBound = [True], finiteUpperBound = [False]\<rparr>
          \<and> Frechet_computeRange cdfEpsilon d' = d'
          \<and> (if 1 < valpha
              then fst (getMean (Frechet_computeMean Gamma) d')
                   = Inr [m_gamma f + m_beta f * Gamma (1 - 1 / valpha)]
              else isl (fst (getMean (Frechet_computeMean Gamma) d'))))"
proof -
  from assms have e: "Frechet_setAlpha cdfEpsilon valpha f = (Inr (), snd (Frechet_setAlpha cdfEpsilon valpha f))"
    by (simp add: prod_eq_iff)
  note c = Frechet_setAlpha_changed[OF e assms(2)]
  note r = Frechet_range_of[OF c(6), unfolded c(1,2,3)]
  have m: "(if 1 < valpha
              then fst (getMean (Frechet_computeMean Gamma) (snd (Frechet_setAlpha cdfEpsilon valpha f)))
                   = Inr [m_gamma f + m_beta f * Gamma (1 - 1 / valpha)]
              else isl (fst (getMean (Frechet_computeMean Gamma) (snd (Frechet_setAlpha cdfEpsilon valpha f)))))"
    using c assms by (simp add: Frechet_getMean_uncached)
  show ?thesis
    unfolding Let_def by (intro conjI) (fact c r m)+
qed

lemma Frechet_setBeta_invalidates:
  assumes "fst (Frechet_setBeta cdfEpsilon vbeta f) = Inr ()" and "vbeta \<noteq> m_beta f"
  shows "(let d' = snd (Frechet_setBeta cdfEpsilon vbeta f) in
          \<not> m_isAlreadyComputedMean d' \<and> \<not> m_isAlreadyComputedCovariance d'
          \<and> m_range d' = \<lparr>lowerBound = [m_gamma f],
                          upperBound = [m_gamma f + vbeta * pow (- ln (1 - cdfEpsilon)) (- 1 / m_alpha f)],
                          finiteLowerBound = [True], finiteUpperBound = [False]\<rparr>
          \<and> Frechet_computeRange cdfEpsilon d' = d'
          \<and> (if 1 < m_alpha f
              then fst (getMean (Frechet_computeMean Gamma) d')
                   = Inr [m_gamma f + vbeta * Gamma (1 - 1 / m_alpha f)]
              else isl (fst (getMean (Frechet_computeMean Gamma) d'))))"
proof -
  from assms have e: "Frechet_setBeta cdfEpsilon vbeta f = (Inr (), snd (Frechet_setBeta cdfEpsilon vbeta f))"
    by (simp add: prod_eq_iff)
  note c = Frechet_setBeta_changed[OF e assms(2)]
  note r = Frechet_range_of[OF c(6), unfolded c(1,2,3)]
  have m: "(if 1 < m_alpha f
              then fst (getMean (Frechet_computeMean Gamma) (snd (Frechet_setBeta cdfEpsilon vbeta f)))
                   = Inr [m_gamma f + vbeta * Gamma (1 - 1 / m_alpha f)]
              else isl (fst (getMean (Frechet_computeMean Gamma) (snd (Frechet_setBeta cdfEpsilon vbeta f)))))"
    using c assms by (simp add: Frechet_getMean_uncached)
  show ?thesis
    unfolding Let_def by (intro conjI) (fact c r m)+
qed

lemma Frechet_setGamma_invalidates:
  assumes "vgamma \<noteq> m_gamma f"
  shows "(let d' = Frechet_setGamma cdfEpsilon vgamma f in
          \<not> m_isAlreadyComputedMean d' \<and> \<not> m_isAlreadyComputedCovariance d'
          \<and> m_range d' = \<lparr>lowerBound = [vgamma],
                          upperBound = [vgamma + m_beta f * pow (- ln (1 - cdfEpsilon)) (- 1 / m_alpha f)],
                          finiteLowerBound = [True], finiteUpperBound = [False]\<rparr>
          \<and> Frechet_computeRange cdfEpsilon d' = d'
          \<and> (if 1 < m_alpha f
              then fst (getMean (Frechet_computeMean Gamma) d')
                   = Inr [vgamma + m_beta f * Gamma (1 - 1 / m_alpha f)]
              else isl (fst (getMean (Frechet_computeMean Gamma) d'))))"
proof -
  note c = Frechet_setGamma_changed[OF refl assms]
  note r = Frechet_range_of[OF c(6), unfolded c(1,2,3)]
  have m: "(if 1 < m_alpha f
              then fst (getMean (Frechet_computeMean Gamma) (Frechet_setGamma cdfEpsilon vgamma f))
                   = Inr [vgamma + m_beta f * Gamma (1 - 1 / m_alpha f)]
              else isl (fst (getMean (Frechet_computeMean Gamma) (Frechet_setGamma cdfEpsilon vgamma f))))"
    using c assms by (simp add: Frechet_getMean_uncached)
  show ?thesis
    unfolding Let_def by (intro conjI) (fact c r m)+
qed

lemma Frechet_setParameter_invalidates:
  assumes "fst (Frechet_setParameter cdfEpsilon pf f) = Inr ()"
  shows "(let d' = snd (Frechet_setParameter cdfEpsilon pf f) in
          \<not> m_isAlreadyComputedMean d' \<and> \<not> m_isAlreadyComputedCovariance d'
          \<and> m_range d' = \<lparr>lowerBound = [pf ! 2],
                          upperBound = [pf ! 2 + pf ! 1 * pow (- ln (1 - cdfEpsilon)) (- 1 / pf ! 0)],
                          finiteLowerBound = [True], finiteUpperBound = [False]\<rparr>
          \<and> Frechet_computeRange cdfEpsilon d' = d'
          \<and> (if 1 < pf ! 0
              then fst (getMean (Frechet_computeMean Gamma) d')
                   = Inr [pf ! 2 + pf ! 1 * Gamma (1 - 1 / pf ! 0)]
              else isl (fst (getMean (Frechet_computeMean Gamma) d'))))"
proof -
  from assms have e: "Frechet_setParameter cdfEpsilon pf f = (Inr (), snd (Frechet_setParameter cdfEpsilon pf f))"
    by (simp add: prod_eq_iff)
  note c = Frechet_setParameter_changed[OF e]
  note r = Frechet_range_of[OF c(6), unfolded c(1,2,3)]
  have m: "(if 1 < pf ! 0
              then fst (getMean (Frechet_computeMean Gamma) (snd (Frechet_setParameter cdfEpsilon pf f)))
                   = Inr [pf ! 2 + pf ! 1 * Gamma (1 - 1 / pf ! 0)]
              else isl (fst (getMean (Frechet_computeMean Gamma) (snd (Frechet_setParameter cdfEpsilon pf f)))))"
    using c assms by (simp add: Frechet_getMean_uncached)
  show ?thesis
    unfolding Let_def by (intro conjI) (fact c r m)+
qed

lemma GeneralizedPareto_setSigma_invalidates:
  assumes "fst (GeneralizedPareto_setSigma Precision vsigma g) = Inr ()" and "vsigma \<noteq> m_sigma g"
  shows "(let d' = snd (GeneralizedPareto_setSigma Precision vsigma g) in
          \<not> m_isAlreadyComputedMean d' \<and> \<not> m_isAlreadyComputedCovariance d'
          \<and> m_range d' =
              (if 0 \<le> m_xi g
               then \<lparr>lowerBound = [0],
                     upperBound =
                       [if m_xi g = 0 then - vsigma * log1p (- (1 - Precision))
                        else vsigma * expm1 (- m_xi g * log1p (- (1 - Precision))) / m_xi g],
                     finiteLowerBound = [True], finiteUpperBound = [False]\<rparr>
               else \<lparr>lowerBound = [0], upperBound = [- vsigma / m_xi g],
                     finiteLowerBound = [True], finiteUpperBound = [True]\<rparr>)
          \<and> GeneralizedPareto_computeRange Precision d' = d'
          \<and> (if m_xi g < 1
              then fst (getMean GeneralizedPareto_computeMean d')
                   = Inr [vsigma / (1 - m_xi g)]
              else isl (fst (getMean GeneralizedPareto_computeMean d'))))"
proof -
  from assms have e: "GeneralizedPareto_setSigma Precision vsigma g = (Inr (), snd (GeneralizedPareto_setSigma Precision vsigma g))"
    by (simp add: prod_eq_iff)
  note c = GeneralizedPareto_setSigma_changed[OF e assms(2)]
  note r = GeneralizedPareto_range_of[OF c(5), unfolded c(1,2)]
  have m: "(if m_xi g < 1
              then fst (getMean GeneralizedPareto_computeMean (snd (GeneralizedPareto_setSigma Precision vsigma g)))
                   = Inr [vsigma / (1 - m_xi g)]
              else isl (fst (getMean GeneralizedPareto_computeMean (snd (GeneralizedPareto_setSigma Precision vsigma g)))))"
    using c assms by (simp add: GeneralizedPareto_getMean_uncached)
  show ?thesis
    unfolding Let_def by (intro conjI) (fact c r m)+
qed

lemma GeneralizedPareto_setXi_invalidates:
  assumes "vxi \<noteq> m_xi g"
  shows "(let d' = GeneralizedPareto_setXi Precision vxi g in
          \<not> m_isAlreadyComputedMean d' \<and> \<not> m_isAlreadyComputedCovariance d'
          \<and> m_range d' =
              (if 0 \<le> vxi
               then \<lparr>lowerBound = [0],
                     upperBound =
                       [if vxi = 0 then - m_sigma g * log1p (- (1 - Precision))
                        else m_sigma g * expm1 (- vxi * log1p (- (1 - Precision))) / vxi],
                     finiteLowerBound = [True], finiteUpperBound = [False]\<rparr>
               else \<lparr>lowerBound = [0], upperBound = [- m_sigma g / vxi],
                     finiteLowerBound = [True], finiteUpperBound = [True]\<rparr>)
          \<and> GeneralizedPareto_computeRange Precision d' = d'
          \<and> (if vxi < 1
              then fst (getMean GeneralizedPareto_computeMean d')
                   = Inr [m_sigma g / (1 - vxi)]
              else isl (fst (getMean GeneralizedPareto_computeMean d'))))"
proof -
  note c = GeneralizedPareto_setXi_changed[OF refl assms]
  note r = GeneralizedPareto_range_of[OF c(5), unfolded c(1,2)]
  have m: "(if vxi < 1
              then fst (getMean GeneralizedPareto_computeMean (GeneralizedPareto_setXi Precision vxi g))
                   = Inr [m_sigma g / (1 - vxi)]
              else isl (fst (getMean GeneralizedPareto_computeMean (GeneralizedPareto_setXi Precision vxi g))))"
    using c assms by (simp add: GeneralizedPareto_getMean_uncached)
  show ?thesis
    unfolding Let_def by (intro conjI) (fact c r m)+
qed

lemma GeneralizedPareto_setParameter_invalidates:
  assumes "fst (GeneralizedPareto_setParameter Precision pg g) = Inr ()"
  shows "(let d' = snd (GeneralizedPareto_setParameter Precision pg g) in
          \<not> m_isAlreadyComputedMean d' \<and> \<not> m_isAlreadyComputedCovariance d'
          \<and> m_range d' =
              (if 0 \<le> pg ! 1
               then \<lparr>lowerBound = [0],
                     upperBound =
                       [if pg ! 1 = 0 then - pg ! 0 * log1p (- (1 - Precision))
                        else pg ! 0 * expm1 (- pg ! 1 * log1p (- (1 - Precision))) / pg ! 1],
                     finiteLowerBound = [True], finiteUpperBound = [False]\<rparr>
               else \<lparr>lowerBound = [0], upperBound = [- pg ! 0 / pg ! 1],
                     finiteLowerBound = [True], finiteUpperBound = [True]\<rparr>)
          \<and> GeneralizedPareto_computeRange Precision d' = d'
          \<and> (if pg ! 1 < 1
              then fst (getMean GeneralizedPareto_computeMean d')
                   = Inr [pg ! 0 / (1 - pg ! 1)]
              else isl (fst (getMean GeneralizedPareto_computeMean d'))))"
proof -
  from assms have e: "GeneralizedPareto_setParameter Precision pg g = (Inr (), snd (GeneralizedPareto_setParameter Precision pg g))"
    by (simp add: prod_eq_iff)
  note c = GeneralizedPareto_setParameter_changed[OF e]
  note r = GeneralizedPareto_range_of[OF c(5), unfolded c(1,2)]
  have m: "(if pg ! 1 < 1
              then fst (getMean GeneralizedPareto_computeMean (snd (GeneralizedPareto_setParameter Precision pg g)))
                   = Inr [pg ! 0 / (1 - pg ! 1)]
              else isl (fst (getMean GeneralizedPareto_computeMean (snd (GeneralizedPareto_setParameter Precision pg g)))))"
    using c assms by (simp add: GeneralizedPareto_getMean_uncached)
  show ?thesis
    unfolding Let_def by (intro conjI) (fact c r m)+
qed

text \<open>C5: every public setter of the three variants (\<^verbatim>\<open>setA\<close>, \<^verbatim>\<open>setB\<close>, \<^verbatim>\<open>setAlpha\<close>,
  \<^verbatim>\<open>setBeta\<close>, \<^verbatim>\<open>setGamma\<close>, \<^verbatim>\<open>setSigma\<close>, \<^verbatim>\<open>setXi\<close> and the three
  \<^verbatim>\<open>setParameter\<close>) that succeeds and changes a parameter value leaves both cache flags
  unset and the range equal to the range of the new parameters (so that computing it again
  changes nothing), and the next \<^verbatim>\<open>getMean\<close> returns the mean of the new parameters, or
  fails where that mean is not defined; it never returns the cached value.
  \<^verbatim>\<open>setParameter\<close> does so whether or not a value changes. The range of the new parameters
  is [a, b] for Arcsine; for Frechet the lower bound gamma and the quantile of
  1 - cdfEpsilon as an upper bound flagged not finite; for GeneralizedPareto [0, -sigma/xi]
  when xi < 0 and otherwise the lower bound 0 and the quantile of 1 - Precision as an upper
  bound flagged not finite.\<close>

theorem C5_setters_invalidate_caches:
  "(fst (Arcsine_setA va a) = Inr () \<and> va \<noteq> m_a a \<longrightarrow>
       (let d' = snd (Arcsine_setA va a) in
          \<not> m_isAlreadyComputedMean d' \<and> \<not> m_isAlreadyComputedCovariance d'
          \<and> m_range d' = \<lparr>lowerBound = [va], upperBound = [m_b a],
                          finiteLowerBound = [True], finiteUpperBound = [True]\<rparr>
          \<and> Arcsine_computeRange d' = d'
          \<and> fst (getMean Arcsine_computeMean d') = Inr [0.5 * (va + m_b a)]))
   \<and> (fst (Arcsine_setB vb a) = Inr () \<and> vb \<noteq> m_b a \<longrightarrow>
       (let d' = snd (Arcsine_setB vb a) in
          \<not> m_isAlreadyComputedMean d' \<and> \<not> m_isAlreadyComputedCovariance d'
          \<and> m_range d' = \<lparr>lowerBound = [m_a a], upperBound = [vb],
                          finiteLowerBound = [True], finiteUpperBound = [True]\<rparr>
          \<and> Arcsine_computeRange d' = d'
          \<and> fst (getMean Arcsine_computeMean d') = Inr [0.5 * (m_a a + vb)]))
   \<and> (fst (Arcsine_setParameter pa a) = Inr () \<longrightarrow>
       (let d' = snd (Arcsine_setParameter pa a) in
          \<not> m_isAlreadyComputedMean d' \<and> \<not> m_isAlreadyComputedCovariance d'
          \<and> m_range d' = \<lparr>lowerBound = [pa ! 0], upperBound = [pa ! 1],
                          finiteLowerBound = [True], finiteUpperBound = [True]\<rparr>
          \<and> Arcsine_computeRange d' = d'
          \<and> fst (getMean Arcsine_computeMean d') = Inr [0.5 * (pa ! 0 + pa ! 1)]))
   \<and> (fst (Frechet_setAlpha cdfEpsilon valpha f) = Inr () \<and> valpha \<noteq> m_alpha f \<longrightarrow>
       (let d' = snd (Frechet_setAlpha cdfEpsilon valpha f) in
          \<not> m_isAlreadyComputedMean d' \<and> \<not> m_isAlreadyComputedCovariance d'
          \<and> m_range d' = \<lparr>lowerBound = [m_gamma f],
                          upperBound = [m_gamma f + m_beta f * pow (- ln (1 - cdfEpsilon)) (- 1 / valpha)],
                          finiteLowerBound = [True], finiteUpperBound = [False]\<rparr>
          \<and> Frechet_computeRange cdfEpsilon d' = d'
          \<and> (if 1 < valpha
              then fst (getMean (Frechet_computeMean Gamma) d')
                   = Inr [m_gamma f + m_beta f * Gamma (1 - 1 / valpha)]
              else isl (fst (getMean (Frechet_computeMean Gamma) d')))))
   \<and> (fst (Frechet_setBeta cdfEpsilon vbeta f) = Inr () \<and> vbeta \<noteq> m_beta f \<longrightarrow>
       (let d' = snd (Frechet_setBeta cdfEpsilon vbeta f) in
          \<not> m_isAlreadyComputedMean d' \<and> \<not> m_isAlreadyComputedCovariance d'
          \<and> m_range d' = \<lparr>lowerBound = [m_gamma f],
                          upperBound = [m_gamma f + vbeta * pow (- ln (1 - cdfEpsilon)) (- 1 / m_alpha f)],
                          finiteLowerBound = [True], finiteUpperBound = [False]\<rparr>
          \<and> Frechet_computeRange cdfEpsilon d' = d'
          \<and> (if 1 < m_alpha f
              then fst (getMean (Frechet_computeMean Gamma) d')
                   = Inr [m_gamma f + vbeta * Gamma (1 - 1 / m_alpha f)]
              else isl (fst (getMean (Frechet_computeMean Gamma) d')))))
   \<and> (vgamma \<noteq> m_gamma f \<longrightarrow>
       (let d' = Frechet_setGamma cdfEpsilon vgamma f in
          \<not> m_isAlreadyComputedMean d' \<and> \<not> m_isAlreadyComputedCovariance d'
          \<and> m_range d' = \<lparr>lowerBound = [vgamma],
                          upperBound = [vgamma + m_beta f * pow (- ln (1 - cdfEpsilon)) (- 1 / m_alpha f)],
                          finiteLowerBound = [True], finiteUpperBound = [False]\<rparr>
          \<and> Frechet_computeRange cdfEpsilon d' = d'
          \<and> (if 1 < m_alpha f
              then fst (getMean (Frechet_computeMean Gamma) d')
                   = Inr [vgamma + m_beta f * Gamma (1 - 1 / m_alpha f)]
              else isl (fst (getMean (Frechet_computeMean Gamma) d')))))
   \<and> (fst (Frechet_setParameter cdfEpsilon pf f) = Inr () \<longrightarrow>
       (let d' = snd (Frechet_setParameter cdfEpsilon pf f) in
          \<not> m_isAlreadyComputedMean d' \<and> \<not> m_isAlreadyComputedCovariance d'
          \<and> m_range d' = \<lparr>lowerBound = [pf ! 2],
                          upperBound = [pf ! 2 + pf ! 1 * pow (- ln (1 - cdfEpsilon)) (- 1 / pf ! 0)],
                          finiteLowerBound = [True], finiteUpperBound = [False]\<rparr>
          \<and> Frechet_computeRange cdfEpsilon d' = d'
          \<and> (if 1 < pf ! 0
              then fst (getMean (Frechet_computeMean Gamma) d')
                   = Inr [pf ! 2 + pf ! 1 * Gamma (1 - 1 / pf ! 0)]
              else isl (fst (getMean (Frechet_computeMean Gamma) d')))))
   \<and> (fst (GeneralizedPareto_setSigma Precision vsigma g) = Inr () \<and> vsigma \<noteq> m_sigma g \<longrightarrow>
       (let d' = snd (GeneralizedPareto_setSigma Precision vsigma g) in
          \<not> m_isAlreadyComputedMean d' \<and> \<not> m_isAlreadyComputedCovariance d'
          \<and> m_range d' =
              (if 0 \<le> m_xi g
               then \<lparr>lowerBound = [0],
                     upperBound =
                       [if m_xi g = 0 then - vsigma * log1p (- (1 - Precision))
                        else vsigma * expm1 (- m_xi g * log1p (- (1 - Precision))) / m_xi g],
                     finiteLowerBound = [True], finiteUpperBound = [False]\<rparr>
               else \<lparr>lowerBound = [0], upperBound = [- vsigma / m_xi g],
                     finiteLowerBound = [True], finiteUpperBound = [True]\<rparr>)
          \<and> GeneralizedPareto_computeRange Precision d' = d'
          \<and> (if m_xi g < 1
              then fst (getMean GeneralizedPareto_computeMean d')
                   = Inr [vsigma / (1 - m_xi g)]
              else isl (fst (getMean GeneralizedPareto_computeMean d')))))
   \<and> (vxi \<noteq> m_xi g \<longrightarrow>
       (let d' = GeneralizedPareto_setXi Precision vxi g in
          \<not> m_isAlreadyComputedMean d' \<and> \<not> m_isAlreadyComputedCovariance d'
          \<and> m_range d' =
              (if 0 \<le> vxi
               then \<lparr>lowerBound = [0],
                     upperBound =
                       [if vxi = 0 then - m_sigma g * log1p (- (1 - Precision))
                        else m_sigma g * expm1 (- vxi * log1p (- (1 - Precision))) / vxi],
                     finiteLowerBound = [True], finiteUpperBound = [False]\<rparr>
               else \<lparr>lowerBound = [0], upperBound = [- m_sigma g / vxi],
                     finiteLowerBound = [True], finiteUpperBound = [True]\<rparr>)
          \<and> GeneralizedPareto_computeRange Precision d' = d'
          \<and> (if vxi < 1
              then fst (getMean GeneralizedPareto_computeMean d')
                   = Inr [m_sigma g / (1 - vxi)]
              else isl (fst (getMean GeneralizedPareto_computeMean d')))))
   \<and> (fst (GeneralizedPareto_setParameter Precision pg g) = Inr () \<longrightarrow>
       (let d' = snd (GeneralizedPareto_setParameter Precision pg g) in
          \<not> m_isAlreadyComputedMean d' \<and> \<not> m_isAlreadyComputedCovariance d'
          \<and> m_range d' =
              (if 0 \<le> pg ! 1
               then \<lparr>lowerBound = [0],
                     upperBound =
                       [if pg ! 1 = 0 then - pg ! 0 * log1p (- (1 - Precision))
                        else pg ! 0 * expm1 (- pg ! 1 * log1p (- (1 - Precision))) / pg ! 1],
                     finiteLowerBound = [True], finiteUpperBound = [False]\<rparr>
               else \<lparr>lowerBound = [0], upperBound = [- pg ! 0 / pg ! 1],
                     finiteLowerBound = [True], finiteUpperBound = [True]\<rparr>)
          \<and> GeneralizedPareto_computeRange Precision d' = d'
          \<and> (if pg ! 1 < 1
              then fst (getMean GeneralizedPareto_computeMean d')
                   = Inr [pg ! 0 / (1 - pg ! 1)]
              else isl (fst (getMean GeneralizedPareto_computeMean d')))))"
  by (intro conjI impI; (elim conjE)?;
      (rule Arcsine_setA_invalidates
         Arcsine_setB_invalidates
         Arcsine_setParameter_invalidates
         Frechet_setAlpha_invalidates
         Frechet_setBeta_invalidates
         Frechet_setGamma_invalidates
         Frechet_setParameter_invalidates
         GeneralizedPareto_setSigma_invalidates
         GeneralizedPareto_setXi_invalidates
         GeneralizedPareto_setParameter_invalidates;
       assumption))

text \<open>The hypotheses of C5 hold for each setter on a distribution whose mean is cached:
  the range afterwards is the range of the new parameters, and the mean returned
  afterwards is the mean of the new parameters and differs from the cached value.\<close>

theorem C5_setters_invalidate_caches_witness:
  "m_isAlreadyComputedMean Arcsine_with_mean
   \<and> m_mean Arcsine_with_mean = [0]
   \<and> m_range Arcsine_with_mean
       = \<lparr>lowerBound = [- 1], upperBound = [1],
          finiteLowerBound = [True], finiteUpperBound = [True]\<rparr>
   \<and> fst (Arcsine_setA (- 3) Arcsine_with_mean) = Inr ()
   \<and> - 3 \<noteq> m_a Arcsine_with_mean
   \<and> m_range (snd (Arcsine_setA (- 3) Arcsine_with_mean))
       = \<lparr>lowerBound = [- 3], upperBound = [1],
          finiteLowerBound = [True], finiteUpperBound = [True]\<rparr>
   \<and> fst (getMean Arcsine_computeMean (snd (Arcsine_setA (- 3) Arcsine_with_mean))) = Inr [- 1]
   \<and> fst (Arcsine_setB 3 Arcsine_with_mean) = Inr ()
   \<and> 3 \<noteq> m_b Arcsine_with_mean
   \<and> m_range (snd (Arcsine_setB 3 Arcsine_with_mean))
       = \<lparr>lowerBound = [- 1], upperBound = [3],
          finiteLowerBound = [True], finiteUpperBound = [True]\<rparr>
   \<and> fst (getMean Arcsine_computeMean (snd (Arcsine_setB 3 Arcsine_with_mean))) = Inr [1]
   \<and> fst (Arcsine_setParameter [2, 4] Arcsine_with_mean) = Inr ()
   \<and> m_range (snd (Arcsine_setParameter [2, 4] Arcsine_with_mean))
       = \<lparr>lowerBound = [2], upperBound = [4],
          finiteLowerBound = [True], finiteUpperBound = [True]\<rparr>
   \<and> fst (getMean Arcsine_computeMean (snd (Arcsine_setParameter [2, 4] Arcsine_with_mean)))
       = Inr [3]
   \<and> m_isAlreadyComputedMean Frechet_with_mean
   \<and> m_mean Frechet_with_mean = [1 / 2]
   \<and> fst (Frechet_setAlpha (1 / 10 ^ 12) 4 Frechet_with_mean) = Inr ()
   \<and> 4 \<noteq> m_alpha Frechet_with_mean
   \<and> m_range (snd (Frechet_setAlpha (1 / 10 ^ 12) 4 Frechet_with_mean))
       = \<lparr>lowerBound = [0],
          upperBound = [0 + 1 * pow (- ln (1 - 1 / 10 ^ 12)) (- 1 / 4)],
          finiteLowerBound = [True], finiteUpperBound = [False]\<rparr>
   \<and> fst (getMean (Frechet_computeMean (\<lambda>x. x)) (snd (Frechet_setAlpha (1 / 10 ^ 12) 4 Frechet_with_mean)))
       = Inr [3 / 4]
   \<and> fst (Frechet_setBeta (1 / 10 ^ 12) 3 Frechet_with_mean) = Inr ()
   \<and> 3 \<noteq> m_beta Frechet_with_mean
   \<and> m_range (snd (Frechet_setBeta (1 / 10 ^ 12) 3 Frechet_with_mean))
       = \<lparr>lowerBound = [0],
          upperBound = [0 + 3 * pow (- ln (1 - 1 / 10 ^ 12)) (- 1 / 2)],
          finiteLowerBound = [True], finiteUpperBound = [False]\<rparr>
   \<and> fst (getMean (Frechet_computeMean (\<lambda>x. x)) (snd (Frechet_setBeta (1 / 10 ^ 12) 3 Frechet_with_mean)))
       = Inr [3 / 2]
   \<and> 5 \<noteq> m_gamma Frechet_with_mean
   \<and> m_range (Frechet_setGamma (1 / 10 ^ 12) 5 Frechet_with_mean)
       = \<lparr>lowerBound = [5],
          upperBound = [5 + 1 * pow (- ln (1 - 1 / 10 ^ 12)) (- 1 / 2)],
          finiteLowerBound = [True], finiteUpperBound = [False]\<rparr>
   \<and> fst (getMean (Frechet_computeMean (\<lambda>x. x)) (Frechet_setGamma (1 / 10 ^ 12) 5 Frechet_with_mean)) = Inr [11 / 2]
   \<and> fst (Frechet_setParameter (1 / 10 ^ 12) [4, 3, 5] Frechet_with_mean) = Inr ()
   \<and> m_range (snd (Frechet_setParameter (1 / 10 ^ 12) [4, 3, 5] Frechet_with_mean))
       = \<lparr>lowerBound = [5],
          upperBound = [5 + 3 * pow (- ln (1 - 1 / 10 ^ 12)) (- 1 / 4)],
          finiteLowerBound = [True], finiteUpperBound = [False]\<rparr>
   \<and> fst (getMean (Frechet_computeMean (\<lambda>x. x)) (snd (Frechet_setParameter (1 / 10 ^ 12) [4, 3, 5] Frechet_with_mean)))
       = Inr [29 / 4]
   \<and> m_isAlreadyComputedMean GeneralizedPareto_with_mean
   \<and> m_mean GeneralizedPareto_with_mean = [1]
   \<and> fst (GeneralizedPareto_setSigma (1 / 10 ^ 12) 3 GeneralizedPareto_with_mean) = Inr ()
   \<and> 3 \<noteq> m_sigma GeneralizedPareto_with_mean
   \<and> m_range (snd (GeneralizedPareto_setSigma (1 / 10 ^ 12) 3 GeneralizedPareto_with_mean))
       = \<lparr>lowerBound = [0], upperBound = [- 3 * log1p (- (1 - 1 / 10 ^ 12))],
          finiteLowerBound = [True], finiteUpperBound = [False]\<rparr>
   \<and> fst (getMean GeneralizedPareto_computeMean
            (snd (GeneralizedPareto_setSigma (1 / 10 ^ 12) 3 GeneralizedPareto_with_mean))) = Inr [3]
   \<and> - (1 / 2) \<noteq> m_xi GeneralizedPareto_with_mean
   \<and> m_range (GeneralizedPareto_setXi (1 / 10 ^ 12) (- (1 / 2)) GeneralizedPareto_with_mean)
       = \<lparr>lowerBound = [0], upperBound = [2],
          finiteLowerBound = [True], finiteUpperBound = [True]\<rparr>
   \<and> fst (getMean GeneralizedPareto_computeMean
            (GeneralizedPareto_setXi (1 / 10 ^ 12) (- (1 / 2)) GeneralizedPareto_with_mean)) = Inr [2 / 3]
   \<and> fst (GeneralizedPareto_setParameter (1 / 10 ^ 12) [3, 1 / 2] GeneralizedPareto_with_mean) = Inr ()
   \<and> m_range (snd (GeneralizedPareto_setParameter (1 / 10 ^ 12) [3, 1 / 2] GeneralizedPareto_with_mean))
       = \<lparr>lowerBound = [0],
          upperBound = [3 * expm1 (- (1 / 2) * log1p (- (1 - 1 / 10 ^ 12))) / (1 / 2)],
          finiteLowerBound = [True], finiteUpperBound = [False]\<rparr>
   \<and> fst (getMean GeneralizedPareto_computeMean
            (snd (GeneralizedPareto_setParameter (1 / 10 ^ 12) [3, 1 / 2] GeneralizedPareto_with_mean)))
       = Inr [6]"
proof -
  note a = Arcsine_with_mean_fields
  note f = Frechet_with_mean_fields
  note g = GeneralizedPareto_with_mean_fields
  have r0: "m_range Arcsine_with_mean
       = \<lparr>lowerBound = [- 1], upperBound = [1],
          finiteLowerBound = [True], finiteUpperBound = [True]\<rparr>"
    by (simp add: Arcsine_with_mean_def getMean_def Arcsine_computeMean_def Arcsine_ctor_defs
        base_defs)
  have s: "fst (Arcsine_setA (- 3) Arcsine_with_mean) = Inr ()"
      "fst (Arcsine_setB 3 Arcsine_with_mean) = Inr ()"
      "fst (Arcsine_setParameter [2, 4] Arcsine_with_mean) = Inr ()"
      "fst (Frechet_setAlpha (1 / 10 ^ 12) 4 Frechet_with_mean) = Inr ()"
      "fst (Frechet_setBeta (1 / 10 ^ 12) 3 Frechet_with_mean) = Inr ()"
      "fst (Frechet_setParameter (1 / 10 ^ 12) [4, 3, 5] Frechet_with_mean) = Inr ()"
      "fst (GeneralizedPareto_setSigma (1 / 10 ^ 12) 3 GeneralizedPareto_with_mean) = Inr ()"
      "fst (GeneralizedPareto_setParameter (1 / 10 ^ 12) [3, 1 / 2] GeneralizedPareto_with_mean)
         = Inr ()"
    by (simp_all add: Arcsine_setA_def Arcsine_setB_def Frechet_setAlpha_def Frechet_setBeta_def
        GeneralizedPareto_setSigma_def a f g Arcsine_setParameter_valid
        Frechet_setParameter_valid GeneralizedPareto_setParameter_valid)
  show ?thesis
    using C5_setters_invalidate_caches[of "- 3" Arcsine_with_mean 3 "[2, 4]" "1 / 10 ^ 12" 4
        Frechet_with_mean "\<lambda>x. x" 3 5 "[4, 3, 5]" "1 / 10 ^ 12" 3
        GeneralizedPareto_with_mean "- (1 / 2)" "[3, 1 / 2]"]
    using s a f g r0 by (simp add: Let_def)
qed

subsection \<open>C6: setParameter is atomic\<close>

text \<open>C6: \<^verbatim>\<open>setParameter\<close> validates the whole tuple before it touches the object. When
  the tuple has the wrong size or a component outside its domain (Arcsine: not a < b;
  Frechet: alpha or beta not positive; GeneralizedPareto: sigma not positive), the call
  fails with \<open>InvalidArgument\<close> and the object is the one it was before the call. In
  every other case the call succeeds.\<close>

theorem C6_setParameter_atomic:
  "(\<not> (length pa = 2 \<and> pa ! 0 < pa ! 1) \<longrightarrow>
      Arcsine_setParameter pa a = (Inl InvalidArgument, a))
   \<and> (length pa = 2 \<and> pa ! 0 < pa ! 1 \<longrightarrow> fst (Arcsine_setParameter pa a) = Inr ())
   \<and> (\<not> (length pf = 3 \<and> 0 < pf ! 0 \<and> 0 < pf ! 1) \<longrightarrow>
      Frechet_setParameter cdfEpsilon pf f = (Inl InvalidArgument, f))
   \<and> (length pf = 3 \<and> 0 < pf ! 0 \<and> 0 < pf ! 1 \<longrightarrow>
      fst (Frechet_setParameter cdfEpsilon pf f) = Inr ())
   \<and> (\<not> (length pg = 2 \<and> 0 < pg ! 0) \<longrightarrow>
      GeneralizedPareto_setParameter Precision pg g = (Inl InvalidArgument, g))
   \<and> (length pg = 2 \<and> 0 < pg ! 0 \<longrightarrow>
      fst (GeneralizedPareto_setParameter Precision pg g) = Inr ())"
  by (simp add: Arcsine_setParameter_invalid Frechet_setParameter_invalid
      GeneralizedPareto_setParameter_invalid Arcsine_setParameter_valid
      Frechet_setParameter_valid GeneralizedPareto_setParameter_valid)

text \<open>The hypotheses of C6 hold at the inputs the claim names: an Arcsine tuple with a = b,
  a Frechet tuple with a valid alpha and a negative beta, and a GeneralizedPareto tuple with
  sigma = 0, each applied to a distribution whose mean is cached. The object, its cached
  mean included, is unchanged.\<close>

theorem C6_setParameter_atomic_witness:
  "\<not> ([1, 1 :: real] ! 0 < [1, 1] ! 1)
   \<and> Arcsine_setParameter [1, 1] Arcsine_with_mean = (Inl InvalidArgument, Arcsine_with_mean)
   \<and> 0 < [3, - 1, 5 :: real] ! 0 \<and> \<not> (0 < [3, - 1, 5 :: real] ! 1)
   \<and> Frechet_setParameter (1 / 10 ^ 12) [3, - 1, 5] Frechet_with_mean
       = (Inl InvalidArgument, Frechet_with_mean)
   \<and> m_alpha Frechet_with_mean = 2
   \<and> \<not> (0 < [0, 1 / 2 :: real] ! 0)
   \<and> GeneralizedPareto_setParameter (1 / 10 ^ 12) [0, 1 / 2] GeneralizedPareto_with_mean
       = (Inl InvalidArgument, GeneralizedPareto_with_mean)"
  using C6_setParameter_atomic[of "[1, 1]" Arcsine_with_mean "[3, - 1, 5]" "1 / 10 ^ 12"
      Frechet_with_mean "[0, 1 / 2]" "1 / 10 ^ 12" GeneralizedPareto_with_mean]
  by (simp add: Frechet_with_mean_fields)

subsection \<open>C7: the cumulative probability is monotone and within [0, 1]\<close>

text \<open>For Arcsine and Frechet with valid parameters the cumulative probability is
  non-decreasing and lies in [0, 1].\<close>

lemma Arcsine_cdf_monotone:
  assumes ab: "m_a d < m_b d" and xy: "x \<le> y"
  shows "\<exists>u v. Arcsine_computeCDF d [x] = Inr u \<and> Arcsine_computeCDF d [y] = Inr v
           \<and> 0 \<le> u \<and> u \<le> v \<and> v \<le> 1"
proof -
  define h where "h = 0.5 * (m_b d - m_a d)"
  define c where "c = 0.5 * (m_a d + m_b d)"
  have h: "0 < h" using ab by (simp add: h_def)
  have ends: "m_a d = c - h" "m_b d = c + h" by (simp_all add: h_def c_def field_simps)
  define F where "F t = 0.5 + arcsin ((t - c) / h) / pi" for t
  have arg: "- 1 < (t - c) / h \<and> (t - c) / h < 1" if "m_a d < t" "t < m_b d" for t
    using that h unfolding ends by (simp add: field_simps)
  have range: "0 \<le> F t \<and> F t \<le> 1" if "m_a d < t" "t < m_b d" for t
  proof -
    have "- 1 \<le> (t - c) / h" "(t - c) / h \<le> 1"
      using arg[OF that] by simp_all
    then have "- (pi / 2) \<le> arcsin ((t - c) / h)" "arcsin ((t - c) / h) \<le> pi / 2"
      by (rule arcsin_lbound, rule arcsin_ubound)
    then have "(- (pi / 2)) / pi \<le> arcsin ((t - c) / h) / pi"
        "arcsin ((t - c) / h) / pi \<le> (pi / 2) / pi"
      by (simp_all only: divide_right_mono pi_ge_zero)
    moreover have "(pi / 2) / pi = 1 / 2" "(- (pi / 2)) / pi = - (1 / 2)" by simp_all
    ultimately have "- (1 / 2) \<le> arcsin ((t - c) / h) / pi"
        "arcsin ((t - c) / h) / pi \<le> 1 / 2"
      by simp_all
    then show ?thesis unfolding F_def by linarith
  qed
  have mono: "F s \<le> F t" if "m_a d < s" "s \<le> t" "t < m_b d" for s t
  proof -
    have "(s - c) / h \<le> (t - c) / h" using that(2) h by (simp add: divide_right_mono)
    moreover have "- 1 \<le> (s - c) / h" using arg[of s] that by simp
    moreover have "(t - c) / h \<le> 1" using arg[of t] that by simp
    ultimately have "arcsin ((s - c) / h) \<le> arcsin ((t - c) / h)"
      by (simp add: arcsin_le_arcsin)
    then show ?thesis by (simp add: F_def divide_right_mono)
  qed
  have cdf: "Arcsine_computeCDF d [t] = Inr (if t \<le> m_a d then 0 else if m_b d \<le> t then 1 else F t)"
    for t
    by (simp add: Arcsine_computeCDF_def Let_def F_def h_def c_def)
  show ?thesis
    unfolding cdf using xy ab range[of x] range[of y] mono[of x y]
    by (auto simp add: not_le)
qed

lemma Frechet_cdf_monotone:
  assumes ab: "0 < m_alpha d" "0 < m_beta d" and xy: "x \<le> y"
  shows "\<exists>u v. Frechet_computeCDF d [x] = Inr u \<and> Frechet_computeCDF d [y] = Inr v
           \<and> 0 \<le> u \<and> u \<le> v \<and> v \<le> 1"
proof -
  define F where "F t = exp (- (((t - m_gamma d) / m_beta d) powr (- m_alpha d)))" for t
  have range: "0 \<le> F t \<and> F t \<le> 1" for t
    by (simp add: F_def)
  have mono: "F s \<le> F t" if "m_gamma d < s" "s \<le> t" for s t
  proof -
    have "0 < (s - m_gamma d) / m_beta d" using that ab by simp
    moreover have "(s - m_gamma d) / m_beta d \<le> (t - m_gamma d) / m_beta d"
      using that ab by (simp add: divide_right_mono)
    ultimately have "((t - m_gamma d) / m_beta d) powr (- m_alpha d)
        \<le> ((s - m_gamma d) / m_beta d) powr (- m_alpha d)"
      using ab(1) by (intro powr_mono2') simp_all
    then show ?thesis by (simp add: F_def)
  qed
  have cdf: "Frechet_computeCDF d [t] = Inr (if t \<le> m_gamma d then 0 else F t)" for t
    by (simp add: Frechet_computeCDF_def Let_def F_def pow_def)
  show ?thesis
    unfolding cdf using xy range[of x] range[of y] mono[of x y]
    by (auto simp add: not_le)
qed

text \<open>C7: the claim asks that the cumulative probability be non-decreasing and lie in
  [0, 1]. For the GeneralizedPareto distribution with sigma = 1 and xi = 10^20 the
  cumulative probability is 0 at [0] and negative at [5 * 10^-19]: the series branch of
  \<^verbatim>\<open>computeCDF\<close> is taken although xi * z is 50.\<close>

theorem C7_generalized_pareto_negative_cdf:
  "\<exists>d. GeneralizedPareto_new Precision 1 (10 ^ 20) = Inr d
     \<and> GeneralizedPareto_computeCDF d [0] = Inr 0
     \<and> GeneralizedPareto_computeCDF d [5 / 10 ^ 19]
         = Inr (- expm1 (- (5 / 10 ^ 19)) - 0.5 * 10 ^ 20 * (5 / 10 ^ 19) * (5 / 10 ^ 19) * exp (- (5 / 10 ^ 19)))
     \<and> - expm1 (- (5 / 10 ^ 19)) - 0.5 * 10 ^ 20 * (5 / 10 ^ 19) * (5 / 10 ^ 19) * exp (- (5 / 10 ^ 19)) < 0"
proof -
  let ?z = "5 / 10 ^ 19 :: real"
  have e: "1 - ?z \<le> exp (- ?z)"
    using exp_ge_add_one_self[of "- ?z"] by simp
  have "(1 - ?z) * (1 + 25 / (2 * 10 ^ 18)) \<le> exp (- ?z) * (1 + 25 / (2 * 10 ^ 18))"
    using e by (intro mult_right_mono) simp_all
  moreover have "1 < (1 - ?z) * (1 + 25 / (2 * 10 ^ 18))" by simp
  ultimately have big: "1 < exp (- ?z) * (1 + 25 / (2 * 10 ^ 18))" by linarith
  have neg: "- expm1 (- ?z) - 0.5 * 10 ^ 20 * ?z * ?z * exp (- ?z) < 0"
  proof -
    have "- expm1 (- ?z) - 0.5 * 10 ^ 20 * ?z * ?z * exp (- ?z)
          = 1 - exp (- ?z) * (1 + 25 / (2 * 10 ^ 18))"
      by (simp add: expm1_def algebra_simps)
    then show ?thesis using big by linarith
  qed
  have guard: "\<bar>sqrt (10 ^ 20) * ?z\<bar> < 1 / 10 ^ 8"
    by (simp add: sqrt_10_20)
  show ?thesis
    using neg guard
    by (simp add: GeneralizedPareto_ctor_defs base_defs GeneralizedPareto_computeCDF_def Let_def)
qed

subsection \<open>C8: loading a persisted distribution\<close>

lemma Arcsine_load_complete:
  assumes "fst (ContinuousDistribution_load adv d) = Inr ()"
    and "loadScalar adv ''a_'' = Inr x" and "loadScalar adv ''b_'' = Inr y"
  shows "fst (Arcsine_load adv d) = Inr ()"
    and "Arcsine_getParameter (snd (Arcsine_load adv d)) = [x, y]"
    and "Arcsine_computeRange (snd (Arcsine_load adv d)) = snd (Arcsine_load adv d)"
    and "m_range (snd (Arcsine_load adv d))
           = \<lparr>lowerBound = [x], upperBound = [y],
              finiteLowerBound = [True], finiteUpperBound = [True]\<rparr>"
  using assms
  by (auto simp add: Arcsine_load_def Arcsine_getParameter_def Arcsine_computeRange_def
      setRange_def Interval_of_scalars_def split: prod.splits sum.splits)

lemma Frechet_load_complete:
  assumes "fst (ContinuousDistribution_load adv d) = Inr ()"
    and "loadScalar adv ''alpha_'' = Inr x" and "loadScalar adv ''beta_'' = Inr y"
    and "loadScalar adv ''gamma_'' = Inr z"
  shows "fst (Frechet_load P adv d) = Inr ()"
    and "Frechet_getParameter (snd (Frechet_load P adv d)) = [x, y, z]"
    and "Frechet_computeRange P (snd (Frechet_load P adv d)) = snd (Frechet_load P adv d)"
    and "m_range (snd (Frechet_load P adv d))
           = \<lparr>lowerBound = [z], upperBound = [z + y * pow (- ln (1 - P)) (- 1 / x)],
              finiteLowerBound = [True], finiteUpperBound = [False]\<rparr>"
  using assms
  by (auto simp add: Frechet_load_def Frechet_getParameter_def setDimension_def
      Frechet_computeRange_def Frechet_computeUpperBound_def Frechet_computeScalarQuantile_def
      setRange_def split: prod.splits sum.splits)

lemma GeneralizedPareto_load_complete:
  assumes "fst (ContinuousDistribution_load adv d) = Inr ()"
    and "loadScalar adv ''sigma_'' = Inr x" and "loadScalar adv ''xi_'' = Inr y"
  shows "fst (GeneralizedPareto_load P adv d) = Inr ()"
    and "GeneralizedPareto_getParameter (snd (GeneralizedPareto_load P adv d)) = [x, y]"
    and "GeneralizedPareto_computeRange P (snd (GeneralizedPareto_load P adv d))
           = snd (GeneralizedPareto_load P adv d)"
    and "m_range (snd (GeneralizedPareto_load P adv d))
           = (if 0 \<le> y
              then \<lparr>lowerBound = [0],
                    upperBound =
                      [if y = 0 then - x * log1p (- (1 - P))
                       else x * expm1 (- y * log1p (- (1 - P))) / y],
                    finiteLowerBound = [True], finiteUpperBound = [False]\<rparr>
              else \<lparr>lowerBound = [0], upperBound = [- x / y],
                    finiteLowerBound = [True], finiteUpperBound = [True]\<rparr>)"
  using assms
  by (auto simp add: GeneralizedPareto_load_def GeneralizedPareto_getParameter_def
      GeneralizedPareto_computeRange_def GeneralizedPareto_computeScalarQuantile_def
      setRange_def Let_def split: prod.splits sum.splits)

lemma load_attribute_missing:
  assumes "map_of adv key = None"
  shows "loadScalar adv key = Inl Deserialization"
    and "loadUnsigned adv key = Inl Deserialization"
    and "loadString adv key = Inl Deserialization"
  using assms by (simp_all add: loadScalar_def loadUnsigned_def loadString_def)

lemma load_attribute_error:
  "loadScalar adv key = Inl e \<Longrightarrow> e = Deserialization"
  "loadUnsigned adv key = Inl e \<Longrightarrow> e = Deserialization"
  "loadString adv key = Inl e \<Longrightarrow> e = Deserialization"
  by (auto simp add: loadScalar_def loadUnsigned_def loadString_def
      split: option.splits attribute.splits)

lemma ContinuousDistribution_load_error:
  assumes "ContinuousDistribution_load adv d = (Inl e, d')"
  shows "e = Deserialization"
  using assms
  by (auto simp add: ContinuousDistribution_load_def dest: load_attribute_error
      split: sum.splits)

lemma ContinuousDistribution_load_missing:
  assumes "map_of adv ''name_'' = None \<or> map_of adv ''dimension_'' = None
           \<or> map_of adv ''weight_'' = None"
  shows "fst (ContinuousDistribution_load adv d) = Inl Deserialization"
  using assms
  by (auto simp add: ContinuousDistribution_load_def load_attribute_missing
      dest: load_attribute_error split: sum.splits)

lemma Arcsine_load_error:
  assumes "fst (Arcsine_load adv d) = Inl e"
  shows "e = Deserialization"
  using assms
  by (auto simp add: Arcsine_load_def
      dest: load_attribute_error ContinuousDistribution_load_error
      split: prod.splits sum.splits)

lemma Frechet_load_error:
  assumes "fst (Frechet_load P adv d) = Inl e"
  shows "e = Deserialization"
  using assms
  by (auto simp add: Frechet_load_def
      dest: load_attribute_error ContinuousDistribution_load_error
      split: prod.splits sum.splits)

lemma GeneralizedPareto_load_error:
  assumes "fst (GeneralizedPareto_load P adv d) = Inl e"
  shows "e = Deserialization"
  using assms
  by (auto simp add: GeneralizedPareto_load_def
      dest: load_attribute_error ContinuousDistribution_load_error
      split: prod.splits sum.splits)

lemma Arcsine_load_missing:
  assumes "map_of adv ''name_'' = None \<or> map_of adv ''dimension_'' = None
           \<or> map_of adv ''weight_'' = None \<or> map_of adv ''a_'' = None
           \<or> map_of adv ''b_'' = None"
  shows "fst (Arcsine_load adv d) = Inl Deserialization"
proof (cases "fst (Arcsine_load adv d)")
  case (Inl e)
  then show ?thesis using Arcsine_load_error[OF Inl] by simp
next
  case (Inr u)
  then show ?thesis
    using assms ContinuousDistribution_load_missing[of adv d]
    by (auto simp add: Arcsine_load_def load_attribute_missing split: prod.splits sum.splits)
qed

lemma Frechet_load_missing:
  assumes "map_of adv ''name_'' = None \<or> map_of adv ''dimension_'' = None
           \<or> map_of adv ''weight_'' = None \<or> map_of adv ''alpha_'' = None
           \<or> map_of adv ''beta_'' = None \<or> map_of adv ''gamma_'' = None"
  shows "fst (Frechet_load P adv d) = Inl Deserialization"
proof (cases "fst (Frechet_load P adv d)")
  case (Inl e)
  then show ?thesis using Frechet_load_error[OF Inl] by simp
next
  case (Inr u)
  then show ?thesis
    using assms ContinuousDistribution_load_missing[of adv d]
    by (auto simp add: Frechet_load_def load_attribute_missing split: prod.splits sum.splits)
qed

lemma GeneralizedPareto_load_missing:
  assumes "map_of adv ''name_'' = None \<or> map_of adv ''dimension_'' = None
           \<or> map_of adv ''weight_'' = None \<or> map_of adv ''sigma_'' = None
           \<or> map_of adv ''xi_'' = None"
  shows "fst (GeneralizedPareto_load P adv d) = Inl Deserialization"
proof (cases "fst (GeneralizedPareto_load P adv d)")
  case (Inl e)
  then show ?thesis using GeneralizedPareto_load_error[OF Inl] by simp
next
  case (Inr u)
  then show ?thesis
    using assms ContinuousDistribution_load_missing[of adv d]
    by (auto simp add: GeneralizedPareto_load_def load_attribute_missing
        split: prod.splits sum.splits)
qed

lemma record_loads:
  "fst (ContinuousDistribution_load (Arcsine_record x y) a) = Inr ()"
  "loadScalar (Arcsine_record x y) ''a_'' = Inr x"
  "loadScalar (Arcsine_record x y) ''b_'' = Inr y"
  "fst (ContinuousDistribution_load (Frechet_record u v w) f) = Inr ()"
  "loadScalar (Frechet_record u v w) ''alpha_'' = Inr u"
  "loadScalar (Frechet_record u v w) ''beta_'' = Inr v"
  "loadScalar (Frechet_record u v w) ''gamma_'' = Inr w"
  "fst (ContinuousDistribution_load (GeneralizedPareto_record s t) g) = Inr ()"
  "loadScalar (GeneralizedPareto_record s t) ''sigma_'' = Inr s"
  "loadScalar (GeneralizedPareto_record s t) ''xi_'' = Inr t"
  by (simp_all add: ContinuousDistribution_load_def loadScalar_def loadUnsigned_def
      loadString_def Arcsine_record_def Frechet_record_def GeneralizedPareto_record_def)

text \<open>C8, as stated: \<^verbatim>\<open>load\<close> re-runs the parameter validation, and a persisted record
  with a non-positive Frechet alpha or GeneralizedPareto sigma fails with \<open>Deserialization\<close>.
  It does not: a record that holds alpha = -1 loads into a Frechet distribution with
  alpha = -1, a record that holds sigma = 0 into a GeneralizedPareto distribution with
  sigma = 0, and both calls succeed. \<^verbatim>\<open>setAlpha\<close> and \<^verbatim>\<open>setSigma\<close> reject these values.\<close>

theorem C8_load_does_not_validate:
  "fst (Frechet_load (1 / 10 ^ 12) (Frechet_record (- 1) 1 0) Frechet_example) = Inr ()
   \<and> m_alpha (snd (Frechet_load (1 / 10 ^ 12) (Frechet_record (- 1) 1 0) Frechet_example)) = - 1
   \<and> fst (Frechet_setAlpha (1 / 10 ^ 12) (- 1) Frechet_example) = Inl InvalidArgument
   \<and> fst (GeneralizedPareto_load (1 / 10 ^ 12) (GeneralizedPareto_record 0 1)
             GeneralizedPareto_example) = Inr ()
   \<and> m_sigma (snd (GeneralizedPareto_load (1 / 10 ^ 12) (GeneralizedPareto_record 0 1)
                      GeneralizedPareto_example)) = 0
   \<and> fst (GeneralizedPareto_setSigma (1 / 10 ^ 12) 0 GeneralizedPareto_example)
       = Inl InvalidArgument"
proof -
  have "Frechet_getParameter
          (snd (Frechet_load (1 / 10 ^ 12) (Frechet_record (- 1) 1 0) Frechet_example))
        = [- 1, 1, 0]"
    by (rule Frechet_load_complete) (rule record_loads)+
  then have f: "m_alpha (snd (Frechet_load (1 / 10 ^ 12) (Frechet_record (- 1) 1 0)
                                Frechet_example)) = - 1"
    by (simp add: Frechet_getParameter_def)
  have "GeneralizedPareto_getParameter
          (snd (GeneralizedPareto_load (1 / 10 ^ 12) (GeneralizedPareto_record 0 1)
                  GeneralizedPareto_example))
        = [0, 1]"
    by (rule GeneralizedPareto_load_complete) (rule record_loads)+
  then have g: "m_sigma (snd (GeneralizedPareto_load (1 / 10 ^ 12) (GeneralizedPareto_record 0 1)
                                GeneralizedPareto_example)) = 0"
    by (simp add: GeneralizedPareto_getParameter_def)
  show ?thesis
    using f g
    by (simp add: Frechet_load_complete(1) GeneralizedPareto_load_complete(1) record_loads
        Frechet_setAlpha_def GeneralizedPareto_setSigma_def)
qed

text \<open>C8, amended: \<^verbatim>\<open>load\<close> runs no parameter validation. When the base class's part of
  the record loads and the record holds every parameter of the variant, \<^verbatim>\<open>load\<close> succeeds
  whatever the values are, the parameters of the distribution are the persisted ones, and
  the range is the range of the persisted parameters: [a, b] for Arcsine; for Frechet the
  lower bound gamma and the quantile of 1 - cdfEpsilon as an upper bound flagged not
  finite; for GeneralizedPareto [0, -sigma/xi] when xi < 0 and otherwise the lower bound 0
  and the quantile of 1 - Precision as an upper bound flagged not finite (so that computing
  the range again changes nothing). When an attribute of the record is missing, \<^verbatim>\<open>load\<close>
  fails with \<open>Deserialization\<close>, and \<^verbatim>\<open>load\<close> fails with no other condition.\<close>

theorem C8_load_restores_parameters_and_range:
  "(fst (ContinuousDistribution_load adva a) = Inr ()
      \<and> loadScalar adva ''a_'' = Inr xa \<and> loadScalar adva ''b_'' = Inr xb \<longrightarrow>
      (let a' = snd (Arcsine_load adva a) in
         fst (Arcsine_load adva a) = Inr ()
         \<and> Arcsine_getParameter a' = [xa, xb]
         \<and> m_range a' = \<lparr>lowerBound = [xa], upperBound = [xb],
                          finiteLowerBound = [True], finiteUpperBound = [True]\<rparr>
         \<and> Arcsine_computeRange a' = a'))
   \<and> (map_of adva ''name_'' = None \<or> map_of adva ''dimension_'' = None
      \<or> map_of adva ''weight_'' = None \<or> map_of adva ''a_'' = None
      \<or> map_of adva ''b_'' = None \<longrightarrow>
      fst (Arcsine_load adva a) = Inl Deserialization)
   \<and> (fst (Arcsine_load adva a) = Inr () \<or> fst (Arcsine_load adva a) = Inl Deserialization)
   \<and> (fst (ContinuousDistribution_load advf f) = Inr ()
      \<and> loadScalar advf ''alpha_'' = Inr xalpha \<and> loadScalar advf ''beta_'' = Inr xbeta
      \<and> loadScalar advf ''gamma_'' = Inr xgamma \<longrightarrow>
      (let f' = snd (Frechet_load cdfEpsilon advf f) in
         fst (Frechet_load cdfEpsilon advf f) = Inr ()
         \<and> Frechet_getParameter f' = [xalpha, xbeta, xgamma]
         \<and> m_range f' = \<lparr>lowerBound = [xgamma],
                          upperBound = [xgamma + xbeta * pow (- ln (1 - cdfEpsilon)) (- 1 / xalpha)],
                          finiteLowerBound = [True], finiteUpperBound = [False]\<rparr>
         \<and> Frechet_computeRange cdfEpsilon f' = f'))
   \<and> (map_of advf ''name_'' = None \<or> map_of advf ''dimension_'' = None
      \<or> map_of advf ''weight_'' = None \<or> map_of advf ''alpha_'' = None
      \<or> map_of advf ''beta_'' = None \<or> map_of advf ''gamma_'' = None \<longrightarrow>
      fst (Frechet_load cdfEpsilon advf f) = Inl Deserialization)
   \<and> (fst (Frechet_load cdfEpsilon advf f) = Inr ()
      \<or> fst (Frechet_load cdfEpsilon advf f) = Inl Deserialization)
   \<and> (fst (ContinuousDistribution_load advg g) = Inr ()
      \<and> loadScalar advg ''sigma_'' = Inr xsigma \<and> loadScalar advg ''xi_'' = Inr xxi \<longrightarrow>
      (let g' = snd (GeneralizedPareto_load Precision advg g) in
         fst (GeneralizedPareto_load Precision advg g) = Inr ()
         \<and> GeneralizedPareto_getParameter g' = [xsigma, xxi]
         \<and> m_range g' =
             (if 0 \<le> xxi
              then \<lparr>lowerBound = [0],
                    upperBound =
                      [if xxi = 0 then - xsigma * log1p (- (1 - Precision))
                       else xsigma * expm1 (- xxi * log1p (- (1 - Precision))) / xxi],
                    finiteLowerBound = [True], finiteUpperBound = [False]\<rparr>
              else \<lparr>lowerBound = [0], upperBound = [- xsigma / xxi],
                    finiteLowerBound = [True], finiteUpperBound = [True]\<rparr>)
         \<and> GeneralizedPareto_computeRange Precision g' = g'))
   \<and> (map_of advg ''name_'' = None \<or> map_of advg ''dimension_'' = None
      \<or> map_of advg ''weight_'' = None \<or> map_of advg ''sigma_'' = None
      \<or> map_of advg ''xi_'' = None \<longrightarrow>
      fst (GeneralizedPareto_load Precision advg g) = Inl Deserialization)
   \<and> (fst (GeneralizedPareto_load Precision advg g) = Inr ()
      \<or> fst (GeneralizedPareto_load Precision advg g) = Inl Deserialization)"
proof -
  have ea: "fst (Arcsine_load adva a) = Inr () \<or> fst (Arcsine_load adva a) = Inl Deserialization"
    using Arcsine_load_error[of adva a] by (cases "fst (Arcsine_load adva a)") auto
  have ef: "fst (Frechet_load cdfEpsilon advf f) = Inr ()
            \<or> fst (Frechet_load cdfEpsilon advf f) = Inl Deserialization"
    using Frechet_load_error[of cdfEpsilon advf f]
    by (cases "fst (Frechet_load cdfEpsilon advf f)") auto
  have eg: "fst (GeneralizedPareto_load Precision advg g) = Inr ()
            \<or> fst (GeneralizedPareto_load Precision advg g) = Inl Deserialization"
    using GeneralizedPareto_load_error[of Precision advg g]
    by (cases "fst (GeneralizedPareto_load Precision advg g)") auto
  show ?thesis
    unfolding Let_def
    by (intro conjI impI; (elim conjE)?;
        (rule Arcsine_load_complete Frechet_load_complete GeneralizedPareto_load_complete
           Arcsine_load_missing Frechet_load_missing GeneralizedPareto_load_missing ea ef eg;
         assumption))
qed

text \<open>The hypotheses of the amended C8 hold for a complete record of each variant, and
  for the same records without their last attribute.\<close>

theorem C8_load_restores_parameters_and_range_witness:
  "fst (ContinuousDistribution_load (Arcsine_record 2 4) Arcsine_default) = Inr ()
   \<and> loadScalar (Arcsine_record 2 4) ''a_'' = Inr 2
   \<and> loadScalar (Arcsine_record 2 4) ''b_'' = Inr 4
   \<and> fst (Arcsine_load (Arcsine_record 2 4) Arcsine_default) = Inr ()
   \<and> Arcsine_getParameter (snd (Arcsine_load (Arcsine_record 2 4) Arcsine_default)) = [2, 4]
   \<and> m_range (snd (Arcsine_load (Arcsine_record 2 4) Arcsine_default))
       = \<lparr>lowerBound = [2], upperBound = [4],
          finiteLowerBound = [True], finiteUpperBound = [True]\<rparr>
   \<and> map_of (butlast (Arcsine_record 2 4)) ''b_'' = None
   \<and> fst (Arcsine_load (butlast (Arcsine_record 2 4)) Arcsine_default) = Inl Deserialization
   \<and> fst (ContinuousDistribution_load (Frechet_record 3 2 1) Frechet_example) = Inr ()
   \<and> loadScalar (Frechet_record 3 2 1) ''alpha_'' = Inr 3
   \<and> loadScalar (Frechet_record 3 2 1) ''beta_'' = Inr 2
   \<and> loadScalar (Frechet_record 3 2 1) ''gamma_'' = Inr 1
   \<and> fst (Frechet_load (1 / 10 ^ 12) (Frechet_record 3 2 1) Frechet_example) = Inr ()
   \<and> Frechet_getParameter (snd (Frechet_load (1 / 10 ^ 12) (Frechet_record 3 2 1) Frechet_example))
       = [3, 2, 1]
   \<and> m_range (snd (Frechet_load (1 / 10 ^ 12) (Frechet_record 3 2 1) Frechet_example))
       = \<lparr>lowerBound = [1],
          upperBound = [1 + 2 * pow (- ln (1 - 1 / 10 ^ 12)) (- 1 / 3)],
          finiteLowerBound = [True], finiteUpperBound = [False]\<rparr>
   \<and> map_of (butlast (Frechet_record 3 2 1)) ''gamma_'' = None
   \<and> fst (Frechet_load (1 / 10 ^ 12) (butlast (Frechet_record 3 2 1)) Frechet_example)
       = Inl Deserialization
   \<and> fst (ContinuousDistribution_load (GeneralizedPareto_record 2 (- (1 / 2)))
             GeneralizedPareto_example) = Inr ()
   \<and> loadScalar (GeneralizedPareto_record 2 (- (1 / 2))) ''sigma_'' = Inr 2
   \<and> loadScalar (GeneralizedPareto_record 2 (- (1 / 2))) ''xi_'' = Inr (- (1 / 2))
   \<and> fst (GeneralizedPareto_load (1 / 10 ^ 12) (GeneralizedPareto_record 2 (- (1 / 2)))
             GeneralizedPareto_example) = Inr ()
   \<and> GeneralizedPareto_getParameter
        (snd (GeneralizedPareto_load (1 / 10 ^ 12) (GeneralizedPareto_record 2 (- (1 / 2)))
                GeneralizedPareto_example))
       = [2, - (1 / 2)]
   \<and> m_range (snd (GeneralizedPareto_load (1 / 10 ^ 12) (GeneralizedPareto_record 2 (- (1 / 2)))
                      GeneralizedPareto_example))
       = \<lparr>lowerBound = [0], upperBound = [4],
          finiteLowerBound = [True], finiteUpperBound = [True]\<rparr>
   \<and> map_of (butlast (GeneralizedPareto_record 2 (- (1 / 2)))) ''xi_'' = None
   \<and> fst (GeneralizedPareto_load (1 / 10 ^ 12) (butlast (GeneralizedPareto_record 2 (- (1 / 2))))
             GeneralizedPareto_example)
       = Inl Deserialization"
proof -
  have m: "map_of (butlast (Arcsine_record 2 4)) ''b_'' = None"
      "map_of (butlast (Frechet_record 3 2 1)) ''gamma_'' = None"
      "map_of (butlast (GeneralizedPareto_record 2 (- (1 / 2)))) ''xi_'' = None"
    by (simp_all add: Arcsine_record_def Frechet_record_def GeneralizedPareto_record_def)
  note complete = C8_load_restores_parameters_and_range[where adva = "Arcsine_record 2 4"
      and a = Arcsine_default and xa = 2 and xb = 4
      and advf = "Frechet_record 3 2 1" and f = Frechet_example
      and xalpha = 3 and xbeta = 2 and xgamma = 1 and cdfEpsilon = "1 / 10 ^ 12"
      and advg = "GeneralizedPareto_record 2 (- (1 / 2))" and g = GeneralizedPareto_example
      and xsigma = 2 and xxi = "- (1 / 2)" and Precision = "1 / 10 ^ 12"]
  note missing = C8_load_restores_parameters_and_range[where
      adva = "butlast (Arcsine_record 2 4)" and a = Arcsine_default
      and advf = "butlast (Frechet_record 3 2 1)" and f = Frechet_example
      and cdfEpsilon = "1 / 10 ^ 12"
      and advg = "butlast (GeneralizedPareto_record 2 (- (1 / 2)))"
      and g = GeneralizedPareto_example and Precision = "1 / 10 ^ 12"]
  show ?thesis
    using complete missing m by (simp add: Let_def record_loads)
qed

subsection \<open>C9: the Arcsine scenario\<close>

text \<open>C9: for the Arcsine distribution with a = -1 and b = 1 (the default constructor),
  the density at [0] is 1/pi, the cumulative probability at [0] is 1/2, and the quantile
  of 1/2 is 0 (the base class wraps the scalar quantile into the point [0]).\<close>

theorem C9_arcsine_scenario:
  "Arcsine_new (- 1) 1 = Inr Arcsine_default
   \<and> Arcsine_computePDF LogMinNumericalScalar Arcsine_default [0] = Inr (1 / pi)
   \<and> Arcsine_computeCDF Arcsine_default [0] = Inr (1 / 2)
   \<and> [Arcsine_computeScalarQuantile Arcsine_default (1 / 2) False] = [0]"
  by (simp add: Arcsine_new_def Arcsine_default_def Arcsine_computePDF_def
      Arcsine_computeLogPDF_def Arcsine_computeCDF_def Arcsine_computeScalarQuantile_def
      Arcsine_computeRange_def Arcsine_fields_def setRange_def setDimension_def setName_def
      exp_minus inverse_eq_divide)

subsection \<open>C10: setParameter keeps the weight\<close>

text \<open>C10: for every valid parameter tuple, \<^verbatim>\<open>setParameter\<close> succeeds, the weight after
  the call is the weight before it, and the parameters are the ones given, although the
  object is replaced by a freshly constructed one (whose own weight is 1).\<close>

theorem C10_setParameter_keeps_weight:
  "(length pa = 2 \<and> pa ! 0 < pa ! 1 \<longrightarrow>
      fst (Arcsine_setParameter pa a) = Inr ()
      \<and> getWeight (snd (Arcsine_setParameter pa a)) = getWeight a
      \<and> Arcsine_getParameter (snd (Arcsine_setParameter pa a)) = pa)
   \<and> (length pf = 3 \<and> 0 < pf ! 0 \<and> 0 < pf ! 1 \<longrightarrow>
      fst (Frechet_setParameter cdfEpsilon pf f) = Inr ()
      \<and> getWeight (snd (Frechet_setParameter cdfEpsilon pf f)) = getWeight f
      \<and> Frechet_getParameter (snd (Frechet_setParameter cdfEpsilon pf f)) = pf)
   \<and> (length pg = 2 \<and> 0 < pg ! 0 \<longrightarrow>
      fst (GeneralizedPareto_setParameter Precision pg g) = Inr ()
      \<and> getWeight (snd (GeneralizedPareto_setParameter Precision pg g)) = getWeight g
      \<and> GeneralizedPareto_getParameter (snd (GeneralizedPareto_setParameter Precision pg g)) = pg)"
proof (intro conjI impI)
  assume h: "length pa = 2 \<and> pa ! 0 < pa ! 1"
  then have e: "pa = [pa ! 0, pa ! 1]"
    by (cases pa; cases "tl pa") auto
  show "fst (Arcsine_setParameter pa a) = Inr ()"
    using h by (simp add: Arcsine_setParameter_valid)
  show "getWeight (snd (Arcsine_setParameter pa a)) = getWeight a"
    using h by (simp add: Arcsine_setParameter_valid Arcsine_computeRange_def base_defs)
  show "Arcsine_getParameter (snd (Arcsine_setParameter pa a)) = pa"
    using h e
    by (simp add: Arcsine_setParameter_valid Arcsine_getParameter_def Arcsine_computeRange_def
        Arcsine_fields_def base_defs)
next
  assume h: "length pf = 3 \<and> 0 < pf ! 0 \<and> 0 < pf ! 1"
  then have e: "pf = [pf ! 0, pf ! 1, pf ! 2]"
    by (cases pf; cases "tl pf"; cases "tl (tl pf)") auto
  show "fst (Frechet_setParameter cdfEpsilon pf f) = Inr ()"
    using h by (simp add: Frechet_setParameter_valid)
  show "getWeight (snd (Frechet_setParameter cdfEpsilon pf f)) = getWeight f"
    using h by (simp add: Frechet_setParameter_valid Frechet_computeRange_def base_defs)
  show "Frechet_getParameter (snd (Frechet_setParameter cdfEpsilon pf f)) = pf"
    using h e
    by (simp add: Frechet_setParameter_valid Frechet_getParameter_def Frechet_computeRange_def
        Frechet_fields_def base_defs)
next
  assume h: "length pg = 2 \<and> 0 < pg ! 0"
  then have e: "pg = [pg ! 0, pg ! 1]"
    by (cases pg; cases "tl pg") auto
  show "fst (GeneralizedPareto_setParameter Precision pg g) = Inr ()"
    using h by (simp add: GeneralizedPareto_setParameter_valid)
  show "getWeight (snd (GeneralizedPareto_setParameter Precision pg g)) = getWeight g"
    using h
    by (simp add: GeneralizedPareto_setParameter_valid GeneralizedPareto_computeRange_def base_defs)
  show "GeneralizedPareto_getParameter (snd (GeneralizedPareto_setParameter Precision pg g)) = pg"
    using h e
    by (simp add: GeneralizedPareto_setParameter_valid GeneralizedPareto_getParameter_def
        GeneralizedPareto_computeRange_def GeneralizedPareto_fields_def base_defs)
qed

text \<open>The hypotheses of C10 hold for a valid tuple of each variant, applied to a
  distribution of weight 5/2: the weight is 5/2 afterwards.\<close>

theorem C10_setParameter_keeps_weight_witness:
  "length [0, 2 :: real] = 2 \<and> [0, 2 :: real] ! 0 < [0, 2] ! 1
   \<and> fst (Arcsine_setParameter [0, 2] (setWeight (5 / 2) Arcsine_default)) = Inr ()
   \<and> getWeight (snd (Arcsine_setParameter [0, 2] (setWeight (5 / 2) Arcsine_default))) = 5 / 2
   \<and> length [3, 1, 5 :: real] = 3 \<and> 0 < [3, 1, 5 :: real] ! 0 \<and> 0 < [3, 1, 5 :: real] ! 1
   \<and> fst (Frechet_setParameter (1 / 10 ^ 12) [3, 1, 5] (setWeight (5 / 2) Frechet_example))
       = Inr ()
   \<and> getWeight (snd (Frechet_setParameter (1 / 10 ^ 12) [3, 1, 5]
                        (setWeight (5 / 2) Frechet_example))) = 5 / 2
   \<and> length [2, 1 / 2 :: real] = 2 \<and> 0 < [2, 1 / 2 :: real] ! 0
   \<and> fst (GeneralizedPareto_setParameter (1 / 10 ^ 12) [2, 1 / 2]
             (setWeight (5 / 2) GeneralizedPareto_example)) = Inr ()
   \<and> getWeight (snd (GeneralizedPareto_setParameter (1 / 10 ^ 12) [2, 1 / 2]
                        (setWeight (5 / 2) GeneralizedPareto_example))) = 5 / 2"
  using C10_setParameter_keeps_weight[of "[0, 2]" "setWeight (5 / 2) Arcsine_default"
      "[3, 1, 5]" "1 / 10 ^ 12" "setWeight (5 / 2) Frechet_example"
      "[2, 1 / 2]" "1 / 10 ^ 12" "setWeight (5 / 2) GeneralizedPareto_example"]
  by (simp add: getWeight_def setWeight_def)

end
